theory Spec2Isabelle
  imports Complex_Main
begin

section \<open>JavaScript values\<close>

text \<open>
  The handler of \<^verbatim>\<open>src/server.js\<close> works on values that \<^verbatim>\<open>JSON.parse\<close> produces and on
  the primitives the language coerces them to. A number is an IEEE double: not-a-number,
  the two infinities, or a finite value, kept here as the rational it denotes (the two
  zeros are one value: nothing in this program tells them apart).
\<close>

datatype jsnum = NaN | PosInf | NegInf | Fin rat

datatype jsval =
    JUndefined
  | JNull
  | JBool bool
  | JNum jsnum
  | JStr string
  | JArr "jsval list"
  | JObj "(string \<times> jsval) list"

text \<open>
  An object is the list of its own properties in insertion order; a key occurs once (as in
  any object \<^verbatim>\<open>JSON.parse\<close> or an object literal builds), and a lookup takes the first.
\<close>

text \<open>A thrown \<^verbatim>\<open>Error\<close>: its \<^verbatim>\<open>name\<close> and its \<^verbatim>\<open>message\<close>.\<close>

datatype jsexn = Exn (exn_name: string) (message: string)

text \<open>\<^verbatim>\<open>Error.prototype.toString\<close>, which \<^verbatim>\<open>'Invalid token: ' + error\<close> calls.\<close>

definition Error_toString :: "jsexn \<Rightarrow> string" where
  "Error_toString e =
     (if exn_name e = [] then message e
      else if message e = [] then exn_name e
      else exn_name e @ '': '' @ message e)"

definition TypeError :: "string \<Rightarrow> jsexn" where
  "TypeError m = Exn ''TypeError'' m"

subsection \<open>Property access\<close>

fun is_nullish :: "jsval \<Rightarrow> bool" where
  "is_nullish JUndefined = True"
| "is_nullish JNull = True"
| "is_nullish _ = False"

text \<open>
  Reading a property of a value that is neither \<^verbatim>\<open>null\<close> nor \<^verbatim>\<open>undefined\<close>. The program
  reads only \<^verbatim>\<open>name\<close>, \<^verbatim>\<open>price\<close>, \<^verbatim>\<open>description\<close>, \<^verbatim>\<open>imageUrl\<close>, \<^verbatim>\<open>items\<close>, \<^verbatim>\<open>id\<close>,
  \<^verbatim>\<open>quantity\<close> and \<^verbatim>\<open>Username\<close>: none of them is a property of a primitive's wrapper, of an
  array or of \<^verbatim>\<open>Object.prototype\<close>, so only an object's own properties answer.
\<close>

fun own_prop :: "jsval \<Rightarrow> string \<Rightarrow> jsval" where
  "own_prop (JObj kvs) k = (case map_of kvs k of None \<Rightarrow> JUndefined | Some v \<Rightarrow> v)"
| "own_prop _ k = JUndefined"

text \<open>\<^verbatim>\<open>v.k\<close>: a \<^verbatim>\<open>TypeError\<close> on \<^verbatim>\<open>null\<close> and \<^verbatim>\<open>undefined\<close> (the message is V8's).\<close>

definition get_prop :: "jsval \<Rightarrow> string \<Rightarrow> jsexn + jsval" where
  "get_prop v k =
     (if v = JUndefined then
        Inl (TypeError (''Cannot read properties of undefined (reading '' @ [CHR 0x27] @ k @ [CHR 0x27] @ '')''))
      else if v = JNull then
        Inl (TypeError (''Cannot read properties of null (reading '' @ [CHR 0x27] @ k @ [CHR 0x27] @ '')''))
      else Inr (own_prop v k))"

subsection \<open>Coercions\<close>

text \<open>\<^verbatim>\<open>ToBoolean\<close>: what \<^verbatim>\<open>!v\<close>, \<^verbatim>\<open>v || w\<close> and \<^verbatim>\<open>v ? a : b\<close> test.\<close>

fun ToBoolean :: "jsval \<Rightarrow> bool" where
  "ToBoolean JUndefined = False"
| "ToBoolean JNull = False"
| "ToBoolean (JBool b) = b"
| "ToBoolean (JNum n) = (n \<noteq> NaN \<and> n \<noteq> Fin 0)"
| "ToBoolean (JStr s) = (s \<noteq> [])"
| "ToBoolean (JArr xs) = True"
| "ToBoolean (JObj kvs) = True"

text \<open>
  The conversions between strings and doubles (\<^verbatim>\<open>StringToNumber\<close>,
  \<^verbatim>\<open>Number::toString\<close>) are the language's own and are taken as parameters.
\<close>

fun join :: "string \<Rightarrow> string list \<Rightarrow> string" where
  "join sep [] = []"
| "join sep [x] = x"
| "join sep (x # y # ys) = x @ sep @ join sep (y # ys)"

text \<open>
  Converting an object to a primitive calls its \<^verbatim>\<open>toString\<close> (and \<^verbatim>\<open>valueOf\<close>, which for a
  plain object gives the object back). An object that \<^verbatim>\<open>JSON.parse\<close> built with an own key
  \<^verbatim>\<open>toString\<close> has a value there that cannot be called, and the conversion throws (the
  message is V8's); without that key the inherited method answers \<^verbatim>\<open>[object Object]\<close>.
\<close>

definition primitive_error :: jsexn where
  "primitive_error = TypeError ''Cannot convert object to primitive value''"

text \<open>
  \<^verbatim>\<open>String(v)\<close>. An array is joined with commas, \<^verbatim>\<open>null\<close> and \<^verbatim>\<open>undefined\<close> elements giving
  the empty string and the other elements converted in turn, from the left: the first
  conversion that throws ends it.
\<close>

fun ToString :: "(jsnum \<Rightarrow> string) \<Rightarrow> jsval \<Rightarrow> jsexn + string"
  and ToStrings :: "(jsnum \<Rightarrow> string) \<Rightarrow> jsval list \<Rightarrow> jsexn + string list" where
  "ToString nts JUndefined = Inr ''undefined''"
| "ToString nts JNull = Inr ''null''"
| "ToString nts (JBool b) = Inr (if b then ''true'' else ''false'')"
| "ToString nts (JNum n) = Inr (nts n)"
| "ToString nts (JStr s) = Inr s"
| "ToString nts (JArr xs) =
     (case ToStrings nts xs of Inl e \<Rightarrow> Inl e | Inr ss \<Rightarrow> Inr (join '','' ss))"
| "ToString nts (JObj kvs) =
     (if map_of kvs ''toString'' \<noteq> None then Inl primitive_error else Inr ''[object Object]'')"
| "ToStrings nts [] = Inr []"
| "ToStrings nts (x # xs) =
     (case (if is_nullish x then Inr [] else ToString nts x) of
        Inl e \<Rightarrow> Inl e
      | Inr s \<Rightarrow> (case ToStrings nts xs of Inl e \<Rightarrow> Inl e | Inr ss \<Rightarrow> Inr (s # ss)))"

text \<open>
  \<^verbatim>\<open>Number(v)\<close>, and the \<^verbatim>\<open>ToNumber\<close> that \<^verbatim>\<open>*\<close> and \<^verbatim>\<open><=\<close> apply to an operand: an array or
  an object is converted to a primitive first, as above.
\<close>

fun ToNumber :: "(string \<Rightarrow> jsnum) \<Rightarrow> (jsnum \<Rightarrow> string) \<Rightarrow> jsval \<Rightarrow> jsexn + jsnum" where
  "ToNumber stn nts JUndefined = Inr NaN"
| "ToNumber stn nts JNull = Inr (Fin 0)"
| "ToNumber stn nts (JBool b) = Inr (if b then Fin 1 else Fin 0)"
| "ToNumber stn nts (JNum n) = Inr n"
| "ToNumber stn nts (JStr s) = Inr (stn s)"
| "ToNumber stn nts (JArr xs) =
     (case ToString nts (JArr xs) of Inl e \<Rightarrow> Inl e | Inr s \<Rightarrow> Inr (stn s))"
| "ToNumber stn nts (JObj kvs) =
     (case ToString nts (JObj kvs) of Inl e \<Rightarrow> Inl e | Inr s \<Rightarrow> Inr (stn s))"

text \<open>\<^verbatim>\<open>n <= 0\<close> on numbers: false when \<^verbatim>\<open>n\<close> is not a number.\<close>

fun num_le_zero :: "jsnum \<Rightarrow> bool" where
  "num_le_zero NaN = False"
| "num_le_zero PosInf = False"
| "num_le_zero NegInf = True"
| "num_le_zero (Fin r) = (r \<le> 0)"

text \<open>
  \<^verbatim>\<open>a * b\<close> on numbers. The product of two finite numbers is their exact product
  rounded to a double; the rounding \<open>rnd\<close> (to the nearest double, or to an infinity when
  the product is out of range) is a parameter.
\<close>

fun num_sign_pos :: "jsnum \<Rightarrow> bool" where
  "num_sign_pos PosInf = True"
| "num_sign_pos (Fin r) = (0 < r)"
| "num_sign_pos _ = False"

fun num_times :: "(rat \<Rightarrow> jsnum) \<Rightarrow> jsnum \<Rightarrow> jsnum \<Rightarrow> jsnum" where
  "num_times rnd NaN b = NaN"
| "num_times rnd a NaN = NaN"
| "num_times rnd (Fin x) (Fin y) = rnd (x * y)"
| "num_times rnd a b =
     (if a = Fin 0 \<or> b = Fin 0 then NaN
      else if num_sign_pos a = num_sign_pos b then PosInf else NegInf)"

subsection \<open>JSON.stringify\<close>

text \<open>
  The text \<^verbatim>\<open>JSON.stringify\<close> writes is kept as the JSON value it denotes: a property whose
  value is \<^verbatim>\<open>undefined\<close> is left out, an \<^verbatim>\<open>undefined\<close> array element and a number that is
  not finite are written \<^verbatim>\<open>null\<close>.
\<close>

fun JSON_stringify :: "jsval \<Rightarrow> jsval" where
  "JSON_stringify JUndefined = JUndefined"
| "JSON_stringify JNull = JNull"
| "JSON_stringify (JBool b) = JBool b"
| "JSON_stringify (JNum n) = (case n of Fin r \<Rightarrow> JNum (Fin r) | _ \<Rightarrow> JNull)"
| "JSON_stringify (JStr s) = JStr s"
| "JSON_stringify (JArr xs) =
     JArr (map (\<lambda>x. if JSON_stringify x = JUndefined then JNull else JSON_stringify x) xs)"
| "JSON_stringify (JObj kvs) =
     JObj (filter (\<lambda>kv. snd kv \<noteq> JUndefined) (map (\<lambda>kv. (fst kv, JSON_stringify (snd kv))) kvs))"


section \<open>The collaborators and the state of the world\<close>

text \<open>
  What the program calls and does not define: the JSON parser, the number conversions and
  the rounding of the language, the token verifier (\<^verbatim>\<open>cognitoIdentityServiceProvider.getUser\<close>), the
  failures of the store (\<^verbatim>\<open>dynamoDb.put\<close> and \<^verbatim>\<open>dynamoDb.scan\<close> reject with an error or
  succeed) and the identifiers \<^verbatim>\<open>uuidv4\<close> draws. Every result below holds for any choice
  of them.
\<close>

record env =
  JSON_parse :: "string \<Rightarrow> jsexn + jsval"
  StringToNumber :: "string \<Rightarrow> jsnum"
  NumberToString :: "jsnum \<Rightarrow> string"
  round_double :: "rat \<Rightarrow> jsnum"
  getUser :: "string \<Rightarrow> jsexn + jsval"
  put_rejects :: "string \<Rightarrow> jsval \<Rightarrow> jsexn option"
  scan_rejects :: "string \<Rightarrow> jsexn option"
  uuid :: "nat \<Rightarrow> string"

text \<open>Every call of a collaborator is logged, in order.\<close>

datatype call = Call_getUser string | Call_put string jsval | Call_scan string

text \<open>
  The world a request runs in: the records of each table of the store, how many
  identifiers have been drawn, the clock's reading (as \<^verbatim>\<open>toISOString\<close> prints it) and the
  log of calls.
\<close>

record world =
  tables :: "string \<Rightarrow> jsval list"
  uuids_drawn :: nat
  now :: string
  calls :: "call list"

text \<open>
  The event of the REST API: header values are strings, and the header map and the body
  are \<^verbatim>\<open>null\<close> (here \<open>None\<close>) when the request has none.
\<close>

record event =
  httpMethod :: string
  resource :: string
  path :: string
  ev_headers :: "(string \<rightharpoonup> string) option"
  ev_body :: "string option"

text \<open>The result: \<^verbatim>\<open>body\<close> is the JSON text, kept as the value it denotes.\<close>

record response =
  statusCode :: nat
  res_headers :: "(string \<times> jsval) list"
  res_body :: jsval

definition PRODUCT_TABLE_NAME :: string where
  "PRODUCT_TABLE_NAME = ''Product''"

definition ORDER_TABLE_NAME :: string where
  "ORDER_TABLE_NAME = ''Order''"

definition headers :: "(string \<times> jsval) list" where
  "headers =
     [(''Access-Control-Allow-Origin'', JStr ''*''),
      (''Access-Control-Allow-Credentials'', JBool True),
      (''Content-Type'', JStr ''application/json'')]"

definition Number_js :: "env \<Rightarrow> jsval \<Rightarrow> jsexn + jsnum" where
  "Number_js env v = ToNumber (StringToNumber env) (NumberToString env) v"

definition String_js :: "env \<Rightarrow> jsval \<Rightarrow> jsexn + string" where
  "String_js env v = ToString (NumberToString env) v"

text \<open>\<^verbatim>\<open>v <= 0\<close>: the operand is converted to a number first, which may throw.\<close>

definition le_zero :: "env \<Rightarrow> jsval \<Rightarrow> jsexn + bool" where
  "le_zero env v =
     (case Number_js env v of Inl e \<Rightarrow> Inl e | Inr n \<Rightarrow> Inr (num_le_zero n))"

text \<open>\<^verbatim>\<open>a * b\<close>: the left operand is converted to a number, then the right one.\<close>

definition times_js :: "env \<Rightarrow> jsval \<Rightarrow> jsval \<Rightarrow> jsexn + jsnum" where
  "times_js env a b =
     (case Number_js env a of
        Inl e \<Rightarrow> Inl e
      | Inr x \<Rightarrow>
          (case Number_js env b of
             Inl e \<Rightarrow> Inl e
           | Inr y \<Rightarrow> Inr (num_times (round_double env) x y)))"

text \<open>\<^verbatim>\<open>JSON.parse(event.body)\<close>: a \<^verbatim>\<open>null\<close> body is converted to the text \<^verbatim>\<open>null\<close>.\<close>

definition parse_body :: "env \<Rightarrow> event \<Rightarrow> jsexn + jsval" where
  "parse_body env event =
     JSON_parse env (case ev_body event of None \<Rightarrow> ''null'' | Some s \<Rightarrow> s)"

definition uuidv4 :: "env \<Rightarrow> world \<Rightarrow> string \<times> world" where
  "uuidv4 env w = (uuid env (uuids_drawn w), w\<lparr>uuids_drawn := Suc (uuids_drawn w)\<rparr>)"

text \<open>
  The store, as the spec's section 6 gives its interface: \<^verbatim>\<open>put\<close> adds the record to the
  table or fails, \<^verbatim>\<open>scan\<close> returns the table's records or fails.
\<close>

definition dynamoDb_put :: "env \<Rightarrow> string \<Rightarrow> jsval \<Rightarrow> world \<Rightarrow> (jsexn + unit) \<times> world" where
  "dynamoDb_put env table item w =
     (let w1 = w\<lparr>calls := calls w @ [Call_put table item]\<rparr> in
      case put_rejects env table item of
        Some e \<Rightarrow> (Inl e, w1)
      | None \<Rightarrow> (Inr (), w1\<lparr>tables := (tables w1)(table := tables w1 table @ [item])\<rparr>))"

definition dynamoDb_scan :: "env \<Rightarrow> string \<Rightarrow> world \<Rightarrow> (jsexn + jsval list) \<times> world" where
  "dynamoDb_scan env table w =
     (let w1 = w\<lparr>calls := calls w @ [Call_scan table]\<rparr> in
      case scan_rejects env table of
        Some e \<Rightarrow> (Inl e, w1)
      | None \<Rightarrow> (Inr (tables w1 table), w1))"

section \<open>The handlers\<close>

subsection \<open>verifyToken\<close>

definition verifyToken :: "env \<Rightarrow> string \<Rightarrow> world \<Rightarrow> (jsexn + jsval) \<times> world" where
  "verifyToken env token w =
     (case (if token = [] then (Inl (Exn ''Error'' ''No token provided''), w)
            else (getUser env token, w\<lparr>calls := calls w @ [Call_getUser token]\<rparr>)) of
        (Inl error, w1) \<Rightarrow> (Inl (Exn ''Error'' (''Invalid token: '' @ Error_toString error)), w1)
      | (Inr user, w1) \<Rightarrow> (Inr user, w1))"

subsection \<open>createProduct\<close>

definition destructure_error :: "string \<Rightarrow> jsval \<Rightarrow> jsexn" where
  "destructure_error k v =
     TypeError (''Cannot destructure property '' @ [CHR 0x27] @ k @ [CHR 0x27] @ '' of ''
       @ [CHR 0x27] @ ''body'' @ [CHR 0x27] @ '' as it is ''
       @ (if v = JNull then ''null'' else ''undefined'') @ ''.'')"

text \<open>
  The object literal \<^verbatim>\<open>productItem\<close>, its properties evaluated in the order written (the
  identifier is drawn before): the first conversion that throws ends it.
\<close>

definition productItem_of ::
  "env \<Rightarrow> string \<Rightarrow> jsval \<Rightarrow> jsval \<Rightarrow> jsval \<Rightarrow> jsval \<Rightarrow> string \<Rightarrow> jsexn + jsval" where
  "productItem_of env new_id name price description imageUrl created =
     (case String_js env name of
        Inl e \<Rightarrow> Inl e
      | Inr name_s \<Rightarrow>
     (case Number_js env price of
        Inl e \<Rightarrow> Inl e
      | Inr price_n \<Rightarrow>
     (case String_js env description of
        Inl e \<Rightarrow> Inl e
      | Inr description_s \<Rightarrow>
     (case (if ToBoolean imageUrl
            then (case String_js env imageUrl of Inl e \<Rightarrow> Inl e | Inr s \<Rightarrow> Inr (JStr s))
            else Inr JNull) of
        Inl e \<Rightarrow> Inl e
      | Inr imageUrl_v \<Rightarrow>
          Inr (JObj
            [(''id'', JStr new_id),
             (''name'', JStr name_s),
             (''price'', JNum price_n),
             (''description'', JStr description_s),
             (''imageUrl'', imageUrl_v),
             (''createdAt'', JStr created)])))))"

definition createProduct :: "env \<Rightarrow> event \<Rightarrow> world \<Rightarrow> (jsexn + response) \<times> world" where
  "createProduct env event w =
     (case parse_body env event of
        Inl e \<Rightarrow> (Inl e, w)
      | Inr body \<Rightarrow>
          if is_nullish body then (Inl (destructure_error ''name'' body), w)
          else
            let name = own_prop body ''name'';
                price = own_prop body ''price'';
                description = own_prop body ''description'';
                imageUrl = own_prop body ''imageUrl''
            in
            if \<not> ToBoolean name \<or> \<not> ToBoolean price \<or> \<not> ToBoolean description then
              (Inr \<lparr>statusCode = 400, res_headers = headers,
                    res_body = JSON_stringify
                      (JObj [(''error'', JStr ''Missing name, price, or description'')])\<rparr>, w)
            else
              let (new_id, w1) = uuidv4 env w in
              (case productItem_of env new_id name price description imageUrl (now w1) of
                 Inl e \<Rightarrow> (Inl e, w1)
               | Inr productItem \<Rightarrow>
                   (case dynamoDb_put env PRODUCT_TABLE_NAME productItem w1 of
                      (Inl e, w2) \<Rightarrow> (Inl e, w2)
                    | (Inr u, w2) \<Rightarrow>
                        (Inr \<lparr>statusCode = 201, res_headers = headers,
                              res_body = JSON_stringify productItem\<rparr>, w2))))"

subsection \<open>getAllProducts and getAllOrders\<close>

definition getAllProducts :: "env \<Rightarrow> world \<Rightarrow> (jsexn + response) \<times> world" where
  "getAllProducts env w =
     (case dynamoDb_scan env PRODUCT_TABLE_NAME w of
        (Inl e, w1) \<Rightarrow> (Inl e, w1)
      | (Inr Items, w1) \<Rightarrow>
          (Inr \<lparr>statusCode = 200, res_headers = headers,
                res_body = JSON_stringify (JArr Items)\<rparr>, w1))"

definition getAllOrders :: "env \<Rightarrow> world \<Rightarrow> (jsexn + response) \<times> world" where
  "getAllOrders env w =
     (case dynamoDb_scan env ORDER_TABLE_NAME w of
        (Inl e, w1) \<Rightarrow> (Inl e, w1)
      | (Inr Items, w1) \<Rightarrow>
          (Inr \<lparr>statusCode = 200, res_headers = headers,
                res_body = JSON_stringify (JArr Items)\<rparr>, w1))"


subsection \<open>createOrder\<close>

text \<open>
  A string is the list of its characters, each a code below 256. \<^verbatim>\<open>\s\<close> of a regular
  expression matches, among them, tab, line feed, vertical tab, form feed, carriage
  return, space and no-break space.
\<close>

definition is_space :: "char \<Rightarrow> bool" where
  "is_space c =
     (c = CHR 0x09 \<or> c = CHR 0x0A \<or> c = CHR 0x0B \<or> c = CHR 0x0C \<or> c = CHR 0x0D
      \<or> c = CHR 0x20 \<or> c = CHR 0xA0)"

definition to_upper :: "char \<Rightarrow> char" where
  "to_upper c =
     (let n = (of_char c :: nat) in if 97 \<le> n \<and> n \<le> 122 then char_of (n - 32) else c)"

definition startsWith :: "string \<Rightarrow> string \<Rightarrow> bool" where
  "startsWith s p = (take (length p) s = p)"

text \<open>
  \<^verbatim>\<open>authHeader.replace(/^Bearer\s+/i, '')\<close>: when the string starts with the letters of
  \<^verbatim>\<open>Bearer\<close> in any case and at least one white space, they and all the white space after
  them are removed; otherwise the string is returned as it is.
\<close>

definition replace_Bearer :: "string \<Rightarrow> string" where
  "replace_Bearer s =
     (if map to_upper (take 6 s) = ''BEARER'' \<and> (case drop 6 s of [] \<Rightarrow> False | c # cs \<Rightarrow> is_space c)
      then dropWhile is_space (drop 6 s) else s)"

text \<open>\<^verbatim>\<open>event.headers?.Authorization || event.headers?.authorization\<close>; \<open>None\<close> is \<^verbatim>\<open>undefined\<close>.\<close>

definition authHeader_of :: "event \<Rightarrow> string option" where
  "authHeader_of event =
     (case ev_headers event of
        None \<Rightarrow> None
      | Some h \<Rightarrow>
          (case h ''Authorization'' of
             None \<Rightarrow> h ''authorization''
           | Some a \<Rightarrow> if a \<noteq> [] then Some a else h ''authorization''))"

fun isArray :: "jsval \<Rightarrow> bool" where
  "isArray (JArr xs) = True"
| "isArray _ = False"

fun elements :: "jsval \<Rightarrow> jsval list" where
  "elements (JArr xs) = xs"
| "elements _ = []"

text \<open>\<^verbatim>\<open>a || b\<close>.\<close>

definition or_js :: "jsval \<Rightarrow> jsval \<Rightarrow> jsval" where
  "or_js a b = (if ToBoolean a then a else b)"

text \<open>
  The validation loop over \<^verbatim>\<open>items\<close>: \<open>Inr False\<close> when an item is refused (the loop
  returns the 400 result), \<open>Inr True\<close> when the loop runs to its end, \<open>Inl\<close> when reading a
  property or comparing the quantity throws. The three tests are joined by \<^verbatim>\<open>||\<close>, so the
  comparison is made only when the id and the quantity are truthy.
\<close>

fun validate_items :: "env \<Rightarrow> jsval list \<Rightarrow> jsexn + bool" where
  "validate_items env [] = Inr True"
| "validate_items env (item # rest) =
     (case get_prop item ''id'' of
        Inl e \<Rightarrow> Inl e
      | Inr item_id \<Rightarrow>
          if \<not> ToBoolean item_id \<or> \<not> ToBoolean (own_prop item ''quantity'')
          then Inr False
          else
            (case le_zero env (own_prop item ''quantity'') of
               Inl e \<Rightarrow> Inl e
             | Inr le \<Rightarrow> if le then Inr False else validate_items env rest))"

text \<open>
  The callback of \<^verbatim>\<open>items.map\<close>: the properties of the object literal are evaluated in the
  order written, and the first conversion that throws ends it.
\<close>

definition normalize_item :: "env \<Rightarrow> jsval \<Rightarrow> jsexn + jsval" where
  "normalize_item env item =
     (case get_prop item ''id'' of
        Inl e \<Rightarrow> Inl e
      | Inr item_id \<Rightarrow>
     (case String_js env item_id of
        Inl e \<Rightarrow> Inl e
      | Inr id_s \<Rightarrow>
     (case Number_js env (own_prop item ''quantity'') of
        Inl e \<Rightarrow> Inl e
      | Inr quantity_n \<Rightarrow>
     (case Number_js env (or_js (own_prop item ''price'') (JNum (Fin 0))) of
        Inl e \<Rightarrow> Inl e
      | Inr price_n \<Rightarrow>
     (case times_js env (or_js (own_prop item ''price'') (JNum (Fin 0)))
             (own_prop item ''quantity'') of
        Inl e \<Rightarrow> Inl e
      | Inr total_n \<Rightarrow>
          Inr (JObj
            [(''id'', JStr id_s),
             (''quantity'', JNum quantity_n),
             (''price'', JNum price_n),
             (''totalPrice'', JNum total_n)]))))))"

text \<open>\<^verbatim>\<open>Array.prototype.map\<close> with a callback that may throw: the first throw ends it.\<close>

fun map_exn :: "('a \<Rightarrow> jsexn + 'b) \<Rightarrow> 'a list \<Rightarrow> jsexn + 'b list" where
  "map_exn f [] = Inr []"
| "map_exn f (x # xs) =
     (case f x of
        Inl e \<Rightarrow> Inl e
      | Inr y \<Rightarrow> (case map_exn f xs of Inl e \<Rightarrow> Inl e | Inr ys \<Rightarrow> Inr (y # ys)))"

definition orderItem_of :: "string \<Rightarrow> jsval \<Rightarrow> jsval list \<Rightarrow> string \<Rightarrow> jsval" where
  "orderItem_of new_id username lines created =
     JObj [(''id'', JStr new_id),
           (''userId'', username),
           (''items'', JArr lines),
           (''createdAt'', JStr created),
           (''status'', JStr ''pending'')]"

text \<open>The body of the \<^verbatim>\<open>try\<close> block of \<^verbatim>\<open>createOrder\<close>.\<close>

definition createOrder_try :: "env \<Rightarrow> event \<Rightarrow> string \<Rightarrow> world \<Rightarrow> (jsexn + response) \<times> world" where
  "createOrder_try env event token w =
     (case verifyToken env token w of
        (Inl e, w1) \<Rightarrow> (Inl e, w1)
      | (Inr user, w1) \<Rightarrow>
         (case get_prop user ''Username'' of
            Inl e \<Rightarrow> (Inl e, w1)
          | Inr username \<Rightarrow>
             (case parse_body env event of
                Inl e \<Rightarrow> (Inl e, w1)
              | Inr body \<Rightarrow>
                 if is_nullish body then (Inl (destructure_error ''items'' body), w1)
                 else
                   let items = own_prop body ''items'' in
                   if \<not> ToBoolean items \<or> \<not> isArray items \<or> length (elements items) = 0 then
                     (Inr \<lparr>statusCode = 400, res_headers = headers,
                           res_body = JSON_stringify
                             (JObj [(''error'', JStr ''Items array is required'')])\<rparr>, w1)
                   else
                     (case validate_items env (elements items) of
                        Inl e \<Rightarrow> (Inl e, w1)
                      | Inr False \<Rightarrow>
                          (Inr \<lparr>statusCode = 400, res_headers = headers,
                                res_body = JSON_stringify
                                  (JObj [(''error'',
                                     JStr ''Each item must have productId and positive quantity'')])\<rparr>,
                           w1)
                      | Inr True \<Rightarrow>
                          let (new_id, w2) = uuidv4 env w1 in
                          (case map_exn (normalize_item env) (elements items) of
                             Inl e \<Rightarrow> (Inl e, w2)
                           | Inr lines \<Rightarrow>
                               let orderItem = orderItem_of new_id username lines (now w2) in
                               (case dynamoDb_put env ORDER_TABLE_NAME orderItem w2 of
                                  (Inl e, w3) \<Rightarrow> (Inl e, w3)
                                | (Inr u, w3) \<Rightarrow>
                                    (Inr \<lparr>statusCode = 201, res_headers = headers,
                                          res_body = JSON_stringify orderItem\<rparr>, w3)))))))"

definition createOrder :: "env \<Rightarrow> event \<Rightarrow> world \<Rightarrow> (jsexn + response) \<times> world" where
  "createOrder env event w =
     (case authHeader_of event of
        None \<Rightarrow>
          (Inr \<lparr>statusCode = 401, res_headers = headers,
                res_body = JSON_stringify
                  (JObj [(''error'', JStr ''Authorization token required'')])\<rparr>, w)
      | Some authHeader \<Rightarrow>
          if authHeader = [] \<or> \<not> startsWith authHeader ''Bearer '' then
            (Inr \<lparr>statusCode = 401, res_headers = headers,
                  res_body = JSON_stringify
                    (JObj [(''error'', JStr ''Authorization token required'')])\<rparr>, w)
          else
            let token = replace_Bearer authHeader in
            (case createOrder_try env event token w of
               (Inl error, w1) \<Rightarrow>
                 (Inr \<lparr>statusCode = 401, res_headers = headers,
                       res_body = JSON_stringify
                         (JObj [(''error'', JStr ''Unauthorized''),
                                (''details'', JStr (message error))])\<rparr>, w1)
             | (Inr r, w1) \<Rightarrow> (Inr r, w1)))"

subsection \<open>handler\<close>

text \<open>
  The dispatcher: everything runs inside its \<^verbatim>\<open>try\<close>, and whatever a handler throws
  becomes the 500 result.
\<close>

definition handler :: "env \<Rightarrow> event \<Rightarrow> world \<Rightarrow> response \<times> world" where
  "handler env event w =
     (case
        (if httpMethod event = ''OPTIONS'' then
           (Inr \<lparr>statusCode = 200,
                 res_headers = headers @
                   [(''Access-Control-Allow-Methods'', JStr ''GET,POST,PUT,DELETE,OPTIONS''),
                    (''Access-Control-Allow-Headers'',
                       JStr ''Content-Type,X-Amz-Date,Authorization,X-Api-Key,X-Amz-Security-Token'')],
                 res_body = JSON_stringify (JObj [])\<rparr>, w)
         else if httpMethod event = ''POST'' \<and> resource event = ''/products'' then
           createProduct env event w
         else if httpMethod event = ''GET'' \<and> resource event = ''/products'' then
           getAllProducts env w
         else if httpMethod event = ''POST'' \<and> resource event = ''/orders'' then
           createOrder env event w
         else if httpMethod event = ''GET'' \<and> resource event = ''/orders'' then
           getAllOrders env w
         else
           (Inr \<lparr>statusCode = 404, res_headers = headers,
                 res_body = JSON_stringify (JObj [(''error'', JStr ''Not found'')])\<rparr>, w))
      of
        (Inl error, w1) \<Rightarrow>
          (\<lparr>statusCode = 500, res_headers = headers,
            res_body = JSON_stringify
              (JObj [(''error'', JStr ''Internal server error''),
                     (''details'', JStr (message error))])\<rparr>, w1)
      | (Inr r, w1) \<Rightarrow> (r, w1))"


section \<open>A concrete environment\<close>

text \<open>
  Collaborators for the worked examples: a parser that answers as \<^verbatim>\<open>JSON.parse\<close> does on the
  texts listed (and refuses the other texts used below, which are malformed), a verifier
  that knows one token, a store that accepts every record, number conversions that
  answer as the language does on the values listed, and no rounding (the numbers of the
  examples and their products are doubles).
\<close>

definition example_texts :: "(string \<times> jsval) list" where
  \<open>example_texts =
     [(''null'', JNull),
      (''{"name":"A","price":10,"description":"d"}'',
         JObj [(''name'', JStr ''A''), (''price'', JNum (Fin 10)), (''description'', JStr ''d'')]),
      (''{"name":"A","description":"d"}'',
         JObj [(''name'', JStr ''A''), (''description'', JStr ''d'')]),
      (''{"name":"A","price":0,"description":"d"}'',
         JObj [(''name'', JStr ''A''), (''price'', JNum (Fin 0)), (''description'', JStr ''d'')]),
      (''{"items":[{"id":"p1","quantity":2,"price":5},{"id":"p2","quantity":1}]}'',
         JObj [(''items'', JArr
           [JObj [(''id'', JStr ''p1''), (''quantity'', JNum (Fin 2)), (''price'', JNum (Fin 5))],
            JObj [(''id'', JStr ''p2''), (''quantity'', JNum (Fin 1))]])]),
      (''{"items":[{"id":"p1","quantity":1.5}]}'',
         JObj [(''items'', JArr
           [JObj [(''id'', JStr ''p1''), (''quantity'', JNum (Fin (3 / 2)))]])]),
      (''{"items":[{"id":"p1","quantity":1},{"id":"p2","quantity":0}]}'',
         JObj [(''items'', JArr
           [JObj [(''id'', JStr ''p1''), (''quantity'', JNum (Fin 1))],
            JObj [(''id'', JStr ''p2''), (''quantity'', JNum (Fin 0))]])]),
      (''{"items":[null]}'', JObj [(''items'', JArr [JNull])]),
      (''{"items":[{"id":"p1","quantity":{"toString":1}}]}'',
         JObj [(''items'', JArr
           [JObj [(''id'', JStr ''p1''),
                  (''quantity'', JObj [(''toString'', JNum (Fin 1))])]])]),
      (''{"items":[{"id":{"toString":1},"quantity":2}]}'',
         JObj [(''items'', JArr
           [JObj [(''id'', JObj [(''toString'', JNum (Fin 1))]),
                  (''quantity'', JNum (Fin 2))]])]),
      (''{"name":{"toString":1},"price":10,"description":"d"}'',
         JObj [(''name'', JObj [(''toString'', JNum (Fin 1))]), (''price'', JNum (Fin 10)),
               (''description'', JStr ''d'')])]\<close>

definition example_parse :: "string \<Rightarrow> jsexn + jsval" where
  "example_parse s =
     (case map_of example_texts s of
        Some v \<Rightarrow> Inr v
      | None \<Rightarrow> Inl (Exn ''SyntaxError'' ''Unexpected token in JSON''))"

definition example_getUser :: "string \<Rightarrow> jsexn + jsval" where
  "example_getUser token =
     (if token = ''good-token'' then Inr (JObj [(''Username'', JStr ''alice'')])
      else Inl (Exn ''NotAuthorizedException'' ''Invalid Access Token''))"

definition example_StringToNumber :: "string \<Rightarrow> jsnum" where
  "example_StringToNumber s =
     (if s = [] then Fin 0 else if s = ''2'' then Fin 2 else if s = ''10'' then Fin 10 else NaN)"

definition example_NumberToString :: "jsnum \<Rightarrow> string" where
  "example_NumberToString n =
     (case n of
        NaN \<Rightarrow> ''NaN''
      | PosInf \<Rightarrow> ''Infinity''
      | NegInf \<Rightarrow> ''-Infinity''
      | Fin r \<Rightarrow> (if r = 2 then ''2'' else if r = 10 then ''10'' else ''0''))"

definition env0 :: env where
  "env0 =
     \<lparr>JSON_parse = example_parse,
      StringToNumber = example_StringToNumber,
      NumberToString = example_NumberToString,
      round_double = Fin,
      getUser = example_getUser,
      put_rejects = (\<lambda>table item. None),
      scan_rejects = (\<lambda>table. None),
      uuid = (\<lambda>n. ''id-'' @ replicate n (CHR ''x''))\<rparr>"

text \<open>The same collaborators with a store whose \<^verbatim>\<open>put\<close> fails.\<close>

definition env_store_down :: env where
  "env_store_down =
     env0\<lparr>put_rejects := (\<lambda>table item. Some (Exn ''ServiceUnavailable'' ''store is down''))\<rparr>"

definition w0 :: world where
  "w0 = \<lparr>tables = (\<lambda>table. []), uuids_drawn = 0, now = ''2024-01-01T00:00:00.000Z'', calls = []\<rparr>"

definition request :: "string \<Rightarrow> string \<Rightarrow> (string \<rightharpoonup> string) option \<Rightarrow> string option \<Rightarrow> event" where
  "request m r h b = \<lparr>httpMethod = m, resource = r, path = r, ev_headers = h, ev_body = b\<rparr>"


section \<open>The results the handlers build\<close>

text \<open>
  Names for the results and records that the handlers build, as the source writes them;
  a body is shown as \<^verbatim>\<open>JSON.stringify\<close> leaves it.
\<close>

abbreviation preflight_result :: response where
  "preflight_result \<equiv>
     \<lparr>statusCode = 200,
      res_headers = headers @
        [(''Access-Control-Allow-Methods'', JStr ''GET,POST,PUT,DELETE,OPTIONS''),
         (''Access-Control-Allow-Headers'',
            JStr ''Content-Type,X-Amz-Date,Authorization,X-Api-Key,X-Amz-Security-Token'')],
      res_body = JObj []\<rparr>"

abbreviation token_required :: response where
  "token_required \<equiv>
     \<lparr>statusCode = 401, res_headers = headers,
      res_body = JObj [(''error'', JStr ''Authorization token required'')]\<rparr>"

abbreviation unauthorized :: "string \<Rightarrow> response" where
  "unauthorized details \<equiv>
     \<lparr>statusCode = 401, res_headers = headers,
      res_body = JObj [(''error'', JStr ''Unauthorized''), (''details'', JStr details)]\<rparr>"

abbreviation internal_error :: "string \<Rightarrow> response" where
  "internal_error details \<equiv>
     \<lparr>statusCode = 500, res_headers = headers,
      res_body = JObj [(''error'', JStr ''Internal server error''), (''details'', JStr details)]\<rparr>"

abbreviation bad_request :: "string \<Rightarrow> response" where
  "bad_request error \<equiv>
     \<lparr>statusCode = 400, res_headers = headers, res_body = JObj [(''error'', JStr error)]\<rparr>"

abbreviation order_line :: "string \<Rightarrow> jsnum \<Rightarrow> jsnum \<Rightarrow> jsnum \<Rightarrow> jsval" where
  "order_line id_s quantity_n price_n total_n \<equiv>
     JObj [(''id'', JStr id_s),
           (''quantity'', JNum quantity_n),
           (''price'', JNum price_n),
           (''totalPrice'', JNum total_n)]"

abbreviation item_accepted :: "env \<Rightarrow> jsval \<Rightarrow> bool" where
  "item_accepted env item \<equiv>
     \<not> is_nullish item \<and> ToBoolean (own_prop item ''id'')
     \<and> ToBoolean (own_prop item ''quantity'')
     \<and> le_zero env (own_prop item ''quantity'') = Inr False"

abbreviation created :: "jsval \<Rightarrow> response" where
  "created item \<equiv>
     \<lparr>statusCode = 201, res_headers = headers, res_body = JSON_stringify item\<rparr>"

abbreviation item_refused :: response where
  "item_refused \<equiv> bad_request ''Each item must have productId and positive quantity''"

section \<open>Example requests\<close>

text \<open>Requests for the worked examples, in the concrete environment above.\<close>

definition order_request :: event where
  \<open>order_request =
     request ''POST'' ''/orders'' (Some [''Authorization'' \<mapsto> ''Bearer good-token''])
       (Some ''{"items":[{"id":"p1","quantity":2,"price":5},{"id":"p2","quantity":1}]}'')\<close>

definition product_request :: event where
  \<open>product_request =
     request ''POST'' ''/products'' None (Some ''{"name":"A","price":10,"description":"d"}'')\<close>


definition malformed_product_request :: event where
  \<open>malformed_product_request = request ''POST'' ''/products'' None (Some ''{"name":'')\<close>

definition malformed_order_request :: event where
  \<open>malformed_order_request =
     request ''POST'' ''/orders'' (Some [''Authorization'' \<mapsto> ''Bearer good-token''])
       (Some ''{"items":'')\<close>

definition product_without_price_request :: event where
  \<open>product_without_price_request =
     request ''POST'' ''/products'' None (Some ''{"name":"A","description":"d"}'')\<close>

definition free_product_request :: event where
  \<open>free_product_request =
     request ''POST'' ''/products'' None (Some ''{"name":"A","price":0,"description":"d"}'')\<close>



definition lowercase_bearer_request :: event where
  \<open>lowercase_bearer_request =
     request ''POST'' ''/orders'' (Some [''Authorization'' \<mapsto> ''bearer good-token''])
       (Some ''{"items":[{"id":"p1","quantity":2,"price":5},{"id":"p2","quantity":1}]}'')\<close>

definition uppercase_key_request :: event where
  \<open>uppercase_key_request =
     request ''POST'' ''/orders'' (Some [''AUTHORIZATION'' \<mapsto> ''Bearer good-token''])
       (Some ''{"items":[{"id":"p1","quantity":2,"price":5},{"id":"p2","quantity":1}]}'')\<close>

definition spaced_bearer_request :: event where
  \<open>spaced_bearer_request =
     request ''POST'' ''/orders'' (Some [''authorization'' \<mapsto> ''Bearer   good-token''])
       (Some ''{"items":[{"id":"p1","quantity":2,"price":5},{"id":"p2","quantity":1}]}'')\<close>

definition null_item_request :: event where
  \<open>null_item_request =
     request ''POST'' ''/orders'' (Some [''Authorization'' \<mapsto> ''Bearer good-token''])
       (Some ''{"items":[null]}'')\<close>

definition quantity_object_order_request :: event where
  \<open>quantity_object_order_request =
     request ''POST'' ''/orders'' (Some [''Authorization'' \<mapsto> ''Bearer good-token''])
       (Some ''{"items":[{"id":"p1","quantity":{"toString":1}}]}'')\<close>

definition id_object_order_request :: event where
  \<open>id_object_order_request =
     request ''POST'' ''/orders'' (Some [''Authorization'' \<mapsto> ''Bearer good-token''])
       (Some ''{"items":[{"id":{"toString":1},"quantity":2}]}'')\<close>

definition name_object_product_request :: event where
  \<open>name_object_product_request =
     request ''POST'' ''/products'' None
       (Some ''{"name":{"toString":1},"price":10,"description":"d"}'')\<close>

definition empty_header_request :: event where
  \<open>empty_header_request =
     request ''POST'' ''/orders'' (Some [''Authorization'' \<mapsto> []])
       (Some ''{"items":[{"id":"p1","quantity":2,"price":5},{"id":"p2","quantity":1}]}'')\<close>

abbreviation product_A :: jsval where
  "product_A \<equiv>
     JObj [(''id'', JStr ''id-''), (''name'', JStr ''A''), (''price'', JNum (Fin 10)),
           (''description'', JStr ''d''), (''imageUrl'', JNull),
           (''createdAt'', JStr ''2024-01-01T00:00:00.000Z'')]"

section \<open>The dispatcher\<close>

lemmas example_defs =
  env0_def env_store_down_def w0_def request_def example_parse_def example_texts_def
  example_getUser_def example_StringToNumber_def example_NumberToString_def

lemma handler_orders_post:
  assumes "httpMethod event = ''POST''" "resource event = ''/orders''"
  shows "handler env event w =
     (case createOrder env event w of
        (Inl error, w1) \<Rightarrow> (internal_error (message error), w1)
      | (Inr r, w1) \<Rightarrow> (r, w1))"
  using assms by (simp add: handler_def split: prod.splits sum.splits)

lemma handler_products_post:
  assumes "httpMethod event = ''POST''" "resource event = ''/products''"
  shows "handler env event w =
     (case createProduct env event w of
        (Inl error, w1) \<Rightarrow> (internal_error (message error), w1)
      | (Inr r, w1) \<Rightarrow> (r, w1))"
  using assms by (simp add: handler_def split: prod.splits sum.splits)

text \<open>
  C9. A request whose method is \<^verbatim>\<open>OPTIONS\<close> gets, whatever its path, headers and body, the
  status 200 with the base headers followed by the allowed methods and the allowed
  headers and the body \<^verbatim>\<open>{}\<close>; the world is returned as it was, so no collaborator (store,
  verifier, parser) has been called.
\<close>

theorem C9_options_preflight:
  assumes "httpMethod event = ''OPTIONS''"
  shows "handler env event w = (preflight_result, w)"
  using assms by (simp add: handler_def)

theorem C9_options_preflight_witness:
  \<open>handler env0
     (request ''OPTIONS'' ''/orders'' (Some [''Authorization'' \<mapsto> ''Bearer good-token''])
        (Some ''{"items":[null]}'')) w0
   = (preflight_result, w0)\<close>
proof -
  have m: \<open>httpMethod
      (request ''OPTIONS'' ''/orders'' (Some [''Authorization'' \<mapsto> ''Bearer good-token''])
        (Some ''{"items":[null]}'')) = ''OPTIONS''\<close>
    by (simp add: request_def)
  show ?thesis by (rule C9_options_preflight [OF m])
qed

section \<open>The order workflow\<close>

lemma createOrder_no_bearer:
  assumes "authHeader_of event = None
     \<or> (\<exists>a. authHeader_of event = Some a \<and> \<not> startsWith a ''Bearer '')"
  shows "createOrder env event w = (Inr token_required, w)"
  using assms by (auto simp: createOrder_def)

lemma authHeader_of_absent:
  assumes "ev_headers event = None
     \<or> (\<exists>h. ev_headers event = Some h \<and> h ''Authorization'' = None \<and> h ''authorization'' = None)"
  shows "authHeader_of event = None"
  using assms by (auto simp: authHeader_of_def)

text \<open>
  C4. When the lookup of the authorization header finds nothing (no header map, neither
  \<^verbatim>\<open>Authorization\<close> nor \<^verbatim>\<open>authorization\<close> in it, or only empty values), or finds a value that
  does not start with \<^verbatim>\<open>Bearer \<close>, order creation answers 401 with
  \<^verbatim>\<open>{error: "Authorization token required"}\<close> and returns the world as it was: the log of
  calls is unchanged, so the verifier has not been called. The dispatcher passes that
  result through.
\<close>

theorem C4_missing_bearer_rejected:
  assumes "authHeader_of event = None
     \<or> (\<exists>a. authHeader_of event = Some a \<and> \<not> startsWith a ''Bearer '')"
  shows "createOrder env event w = (Inr token_required, w)
       \<and> calls (snd (createOrder env event w)) = calls w
       \<and> (httpMethod event = ''POST'' \<and> resource event = ''/orders''
            \<longrightarrow> handler env event w = (token_required, w))"
  using createOrder_no_bearer [OF assms] by (simp add: handler_orders_post)

theorem C4_missing_bearer_rejected_witness:
  "createOrder env0 empty_header_request w0 = (Inr token_required, w0)
   \<and> calls (snd (createOrder env0 empty_header_request w0)) = []
   \<and> handler env0 empty_header_request w0 = (token_required, w0)"
proof -
  have h: "authHeader_of empty_header_request = None
      \<or> (\<exists>a. authHeader_of empty_header_request = Some a \<and> \<not> startsWith a ''Bearer '')"
    by (simp add: authHeader_of_def empty_header_request_def request_def)
  have m: "httpMethod empty_header_request = ''POST'' \<and> resource empty_header_request = ''/orders''"
    by (simp add: empty_header_request_def request_def)
  show ?thesis
    using C4_missing_bearer_rejected [OF h, of env0 w0] m
    by (simp add: w0_def)
qed

lemma get_prop_ok: "\<not> is_nullish v \<Longrightarrow> get_prop v k = Inr (own_prop v k)"
  by (cases v) (simp_all add: get_prop_def)

lemma get_prop_nullish: "is_nullish v \<Longrightarrow> \<exists>e. get_prop v k = Inl e"
  by (cases v) (simp_all add: get_prop_def)

lemma own_prop_nullish: "is_nullish v \<Longrightarrow> own_prop v k = JUndefined"
  by (cases v) simp_all

lemma to_upper_Bearer: "map to_upper ''Bearer'' = ''BEARER''"
  by code_simp

lemma startsWith_append: "startsWith a p \<Longrightarrow> a = p @ drop (length p) a"
  by (metis startsWith_def append_take_drop_id)

lemma replace_Bearer_prefix:
  "replace_Bearer (''Bearer '' @ rest) = dropWhile is_space rest"
  by (simp add: replace_Bearer_def to_upper_Bearer [simplified] is_space_def)

lemma createOrder_bearer:
  assumes "authHeader_of event = Some a" and "startsWith a ''Bearer ''"
  shows "createOrder env event w =
     (case createOrder_try env event (replace_Bearer a) w of
        (Inl error, w1) \<Rightarrow> (Inr (unauthorized (message error)), w1)
      | (Inr r, w1) \<Rightarrow> (Inr r, w1))"
proof -
  from assms(2) have "a \<noteq> []" by (auto simp: startsWith_def)
  with assms show ?thesis
    by (simp add: createOrder_def split: prod.splits sum.splits)
qed

lemma createOrder_returns:
  assumes "authHeader_of event = Some a" and "startsWith a ''Bearer ''"
  shows "\<exists>r w'. createOrder env event w = (Inr r, w')"
  by (simp add: createOrder_bearer [OF assms] split: prod.splits sum.splits)

lemma try_empty_token:
  "createOrder_try env event [] w =
     (Inl (Exn ''Error'' ''Invalid token: Error: No token provided''), w)"
  by (simp add: createOrder_try_def verifyToken_def Error_toString_def)

lemma try_verifier_rejects:
  assumes "token \<noteq> []" and "getUser env token = Inl e"
  shows "createOrder_try env event token w =
     (Inl (Exn ''Error'' (''Invalid token: '' @ Error_toString e)),
      w\<lparr>calls := calls w @ [Call_getUser token]\<rparr>)"
  using assms by (simp add: createOrder_try_def verifyToken_def)

lemma try_parse_fails:
  assumes "token \<noteq> []" and "getUser env token = Inr user" and "\<not> is_nullish user"
    and "parse_body env event = Inl e"
  shows "createOrder_try env event token w = (Inl e, w\<lparr>calls := calls w @ [Call_getUser token]\<rparr>)"
  using assms by (simp add: createOrder_try_def verifyToken_def get_prop_ok)


lemma validate_items_True:
  "validate_items env xs = Inr True \<longleftrightarrow> (\<forall>x\<in>set xs. item_accepted env x)"
proof (induction xs)
  case Nil
  show ?case by simp
next
  case (Cons x xs)
  show ?case
  proof (cases "is_nullish x")
    case True
    then obtain e where "get_prop x ''id'' = Inl e" using get_prop_nullish by blast
    with True show ?thesis by simp
  next
    case False
    then show ?thesis using Cons.IH
      by (cases "le_zero env (own_prop x ''quantity'')") (auto simp: get_prop_ok)
  qed
qed

lemma normalize_item_ok:
  assumes "\<not> is_nullish item"
    and "String_js env (own_prop item ''id'') = Inr id_s"
    and "Number_js env (own_prop item ''quantity'') = Inr quantity_n"
    and "Number_js env (or_js (own_prop item ''price'') (JNum (Fin 0))) = Inr price_n"
  shows "normalize_item env item
           = Inr (order_line id_s quantity_n price_n
                    (num_times (round_double env) price_n quantity_n))"
  using assms by (simp add: normalize_item_def get_prop_ok times_js_def)

lemma map_exn_normalize:
  assumes "\<forall>x\<in>set xs. \<not> is_nullish x
      \<and> String_js env (own_prop x ''id'') = Inr (sid x)
      \<and> Number_js env (own_prop x ''quantity'') = Inr (qty x)
      \<and> Number_js env (or_js (own_prop x ''price'') (JNum (Fin 0))) = Inr (prc x)"
  shows "map_exn (normalize_item env) xs
           = Inr (map (\<lambda>x. order_line (sid x) (qty x) (prc x)
                              (num_times (round_double env) (prc x) (qty x))) xs)"
  using assms by (induction xs) (simp_all add: normalize_item_ok)

lemma try_validated:
  assumes "token \<noteq> []" and "getUser env token = Inr user" and "\<not> is_nullish user"
    and "parse_body env event = Inr body" and "own_prop body ''items'' = JArr xs"
    and "xs \<noteq> []" and "validate_items env xs = Inr True"
  shows "createOrder_try env event token w =
     (case map_exn (normalize_item env) xs of
        Inl e \<Rightarrow>
          (Inl e, w\<lparr>calls := calls w @ [Call_getUser token], uuids_drawn := Suc (uuids_drawn w)\<rparr>)
      | Inr lines \<Rightarrow>
          (case dynamoDb_put env ORDER_TABLE_NAME
                  (orderItem_of (uuid env (uuids_drawn w)) (own_prop user ''Username'') lines (now w))
                  (w\<lparr>calls := calls w @ [Call_getUser token], uuids_drawn := Suc (uuids_drawn w)\<rparr>) of
             (Inl e, w3) \<Rightarrow> (Inl e, w3)
           | (Inr u, w3) \<Rightarrow>
               (Inr (created (orderItem_of (uuid env (uuids_drawn w)) (own_prop user ''Username'')
                       lines (now w))), w3)))"
proof -
  from assms(5) have nb: "\<not> is_nullish body" using own_prop_nullish by fastforce
  show ?thesis
    using assms nb
    by (simp add: createOrder_try_def verifyToken_def get_prop_ok uuidv4_def
        split: prod.splits sum.splits)
qed

lemma try_reaches_put:
  assumes "token \<noteq> []" and "getUser env token = Inr user" and "\<not> is_nullish user"
    and "parse_body env event = Inr body" and "own_prop body ''items'' = JArr xs"
    and "xs \<noteq> []" and "validate_items env xs = Inr True"
    and "map_exn (normalize_item env) xs = Inr lines"
  shows "createOrder_try env event token w =
     (case dynamoDb_put env ORDER_TABLE_NAME
             (orderItem_of (uuid env (uuids_drawn w)) (own_prop user ''Username'') lines (now w))
             (w\<lparr>calls := calls w @ [Call_getUser token], uuids_drawn := Suc (uuids_drawn w)\<rparr>) of
        (Inl e, w3) \<Rightarrow> (Inl e, w3)
      | (Inr u, w3) \<Rightarrow>
          (Inr (created (orderItem_of (uuid env (uuids_drawn w)) (own_prop user ''Username'')
                lines (now w))), w3))"
  by (simp add: try_validated [OF assms(1-7)] assms(8))

lemma try_put_fails:
  assumes "token \<noteq> []" and "getUser env token = Inr user" and "\<not> is_nullish user"
    and "parse_body env event = Inr body" and "own_prop body ''items'' = JArr xs"
    and "xs \<noteq> []" and "validate_items env xs = Inr True"
    and "map_exn (normalize_item env) xs = Inr lines"
    and "put_rejects env ORDER_TABLE_NAME
           (orderItem_of (uuid env (uuids_drawn w)) (own_prop user ''Username'')
              lines (now w)) = Some e"
  shows "fst (createOrder_try env event token w) = Inl e"
  using assms(9)
  by (simp add: try_reaches_put [OF assms(1-8)] dynamoDb_put_def)

lemma try_conversion_throws:
  assumes "token \<noteq> []" and "getUser env token = Inr user" and "\<not> is_nullish user"
    and "parse_body env event = Inr body" and "own_prop body ''items'' = JArr xs"
    and "xs \<noteq> []" and "validate_items env xs = Inr True"
    and "map_exn (normalize_item env) xs = Inl e"
  shows "fst (createOrder_try env event token w) = Inl e"
  by (simp add: try_validated [OF assms(1-7)] assms(8))

lemma try_validation_throws:
  assumes "token \<noteq> []" and "getUser env token = Inr user" and "\<not> is_nullish user"
    and "parse_body env event = Inr body" and "own_prop body ''items'' = JArr xs"
    and "xs \<noteq> []" and "validate_items env xs = Inl e"
  shows "fst (createOrder_try env event token w) = Inl e"
proof -
  from assms(5) have nb: "\<not> is_nullish body" using own_prop_nullish by fastforce
  show ?thesis
    using assms nb
    by (simp add: createOrder_try_def verifyToken_def get_prop_ok)
qed

lemma createOrder_try_status:
  assumes "createOrder_try env event token w = (Inr r, w')"
  shows "statusCode r = 201 \<or> statusCode r = 400"
  using assms
  by (auto simp: createOrder_try_def Let_def split: prod.splits sum.splits if_splits bool.splits)

lemma createOrder_status:
  assumes "createOrder env event w = (Inr r, w')"
  shows "statusCode r = 201 \<or> statusCode r = 400 \<or> statusCode r = 401"
  using assms createOrder_try_status
  by (fastforce simp: createOrder_def Let_def split: prod.splits sum.splits if_splits option.splits)

text \<open>
  C1. Once the authorization header starts with \<^verbatim>\<open>Bearer \<close>, order creation always returns a
  result, with status 201, 400 or 401, which the dispatcher passes through: nothing thrown
  reaches the dispatcher's 500 boundary. Whatever the \<^verbatim>\<open>try\<close> block throws becomes 401
  \<^verbatim>\<open>{error: "Unauthorized", details: <message>}\<close>: an empty credential, a rejection by the
  verifier, a body that does not parse, a failure of the store's \<^verbatim>\<open>put\<close> once the items
  were validated and converted, and an error thrown by the validation loop or by the
  conversion of the items.
\<close>

theorem C1_order_exceptions_become_401:
  assumes hdr: "authHeader_of event = Some a" and pre: "startsWith a ''Bearer ''"
  shows
    "(\<exists>r w'. createOrder env event w = (Inr r, w')
        \<and> (statusCode r = 201 \<or> statusCode r = 400 \<or> statusCode r = 401)
        \<and> (httpMethod event = ''POST'' \<and> resource event = ''/orders''
              \<longrightarrow> handler env event w = (r, w')))
     \<and> (createOrder_try env event (replace_Bearer a) w = (Inl e, w1)
          \<longrightarrow> createOrder env event w = (Inr (unauthorized (message e)), w1))
     \<and> (replace_Bearer a = []
          \<longrightarrow> fst (createOrder env event w)
                = Inr (unauthorized ''Invalid token: Error: No token provided''))
     \<and> (replace_Bearer a \<noteq> [] \<and> getUser env (replace_Bearer a) = Inl e1
          \<longrightarrow> fst (createOrder env event w)
                = Inr (unauthorized (''Invalid token: '' @ Error_toString e1)))
     \<and> (replace_Bearer a \<noteq> [] \<and> getUser env (replace_Bearer a) = Inr user
          \<and> \<not> is_nullish user \<and> parse_body env event = Inl e2
          \<longrightarrow> fst (createOrder env event w) = Inr (unauthorized (message e2)))
     \<and> (replace_Bearer a \<noteq> [] \<and> getUser env (replace_Bearer a) = Inr user
          \<and> \<not> is_nullish user \<and> parse_body env event = Inr body
          \<and> own_prop body ''items'' = JArr xs \<and> xs \<noteq> [] \<and> validate_items env xs = Inr True
          \<and> map_exn (normalize_item env) xs = Inr lines
          \<and> put_rejects env ORDER_TABLE_NAME
               (orderItem_of (uuid env (uuids_drawn w)) (own_prop user ''Username'')
                  lines (now w)) = Some e3
          \<longrightarrow> fst (createOrder env event w) = Inr (unauthorized (message e3)))
     \<and> (replace_Bearer a \<noteq> [] \<and> getUser env (replace_Bearer a) = Inr user
          \<and> \<not> is_nullish user \<and> parse_body env event = Inr body
          \<and> own_prop body ''items'' = JArr xs \<and> xs \<noteq> []
          \<and> (validate_items env xs = Inl e4
               \<or> validate_items env xs = Inr True \<and> map_exn (normalize_item env) xs = Inl e4)
          \<longrightarrow> fst (createOrder env event w) = Inr (unauthorized (message e4)))"
proof -
  note co = createOrder_bearer [OF hdr pre, of env w]
  have lift: "fst (createOrder env event w) = Inr (unauthorized (message x))"
    if "fst (createOrder_try env event (replace_Bearer a) w) = Inl x" for x
    using that by (cases "createOrder_try env event (replace_Bearer a) w") (simp add: co)
  obtain r w' where r: "createOrder env event w = (Inr r, w')"
    using createOrder_returns [OF hdr pre] by blast
  have c1: "\<exists>r w'. createOrder env event w = (Inr r, w')
        \<and> (statusCode r = 201 \<or> statusCode r = 400 \<or> statusCode r = 401)
        \<and> (httpMethod event = ''POST'' \<and> resource event = ''/orders''
              \<longrightarrow> handler env event w = (r, w'))"
    using r createOrder_status [OF r] by (simp add: handler_orders_post)
  have c2: "createOrder_try env event (replace_Bearer a) w = (Inl e, w1)
          \<longrightarrow> createOrder env event w = (Inr (unauthorized (message e)), w1)"
    by (simp add: co)
  have c3: "replace_Bearer a = []
          \<longrightarrow> fst (createOrder env event w)
                = Inr (unauthorized ''Invalid token: Error: No token provided'')"
    by (simp add: co try_empty_token)
  have c4: "replace_Bearer a \<noteq> [] \<and> getUser env (replace_Bearer a) = Inl e1
          \<longrightarrow> fst (createOrder env event w)
                = Inr (unauthorized (''Invalid token: '' @ Error_toString e1))"
    by (simp add: co try_verifier_rejects)
  have c5: "replace_Bearer a \<noteq> [] \<and> getUser env (replace_Bearer a) = Inr user
          \<and> \<not> is_nullish user \<and> parse_body env event = Inl e2
          \<longrightarrow> fst (createOrder env event w) = Inr (unauthorized (message e2))"
    by (simp add: co try_parse_fails)
  have c6: "replace_Bearer a \<noteq> [] \<and> getUser env (replace_Bearer a) = Inr user
          \<and> \<not> is_nullish user \<and> parse_body env event = Inr body
          \<and> own_prop body ''items'' = JArr xs \<and> xs \<noteq> [] \<and> validate_items env xs = Inr True
          \<and> map_exn (normalize_item env) xs = Inr lines
          \<and> put_rejects env ORDER_TABLE_NAME
               (orderItem_of (uuid env (uuids_drawn w)) (own_prop user ''Username'')
                  lines (now w)) = Some e3
          \<longrightarrow> fst (createOrder env event w) = Inr (unauthorized (message e3))"
  proof (intro impI, elim conjE)
    assume h: "replace_Bearer a \<noteq> []" "getUser env (replace_Bearer a) = Inr user"
      "\<not> is_nullish user" "parse_body env event = Inr body"
      "own_prop body ''items'' = JArr xs" "xs \<noteq> []" "validate_items env xs = Inr True"
      "map_exn (normalize_item env) xs = Inr lines"
      "put_rejects env ORDER_TABLE_NAME
               (orderItem_of (uuid env (uuids_drawn w)) (own_prop user ''Username'')
                  lines (now w)) = Some e3"
    from lift [OF try_put_fails [OF h]]
    show "fst (createOrder env event w) = Inr (unauthorized (message e3))" .
  qed
  have c7: "replace_Bearer a \<noteq> [] \<and> getUser env (replace_Bearer a) = Inr user
          \<and> \<not> is_nullish user \<and> parse_body env event = Inr body
          \<and> own_prop body ''items'' = JArr xs \<and> xs \<noteq> []
          \<and> (validate_items env xs = Inl e4
               \<or> validate_items env xs = Inr True \<and> map_exn (normalize_item env) xs = Inl e4)
          \<longrightarrow> fst (createOrder env event w) = Inr (unauthorized (message e4))"
  proof (intro impI, elim conjE)
    assume h: "replace_Bearer a \<noteq> []" "getUser env (replace_Bearer a) = Inr user"
      "\<not> is_nullish user" "parse_body env event = Inr body"
      "own_prop body ''items'' = JArr xs" "xs \<noteq> []"
      and d: "validate_items env xs = Inl e4
               \<or> validate_items env xs = Inr True \<and> map_exn (normalize_item env) xs = Inl e4"
    from d have "fst (createOrder_try env event (replace_Bearer a) w) = Inl e4"
    proof
      assume "validate_items env xs = Inl e4"
      from try_validation_throws [OF h this] show ?thesis .
    next
      assume "validate_items env xs = Inr True \<and> map_exn (normalize_item env) xs = Inl e4"
      then show ?thesis using try_conversion_throws [OF h] by blast
    qed
    from lift [OF this]
    show "fst (createOrder env event w) = Inr (unauthorized (message e4))" .
  qed
  from c1 c2 c3 c4 c5 c6 c7 show ?thesis by blast
qed

lemmas eval_defs =
  example_defs authHeader_of_def startsWith_def parse_body_def
  Number_js_def String_js_def le_zero_def times_js_def or_js_def get_prop_def
  orderItem_of_def ORDER_TABLE_NAME_def PRODUCT_TABLE_NAME_def normalize_item_def
  productItem_of_def primitive_error_def TypeError_def

lemma replace_Bearer_good: "replace_Bearer ''Bearer good-token'' = ''good-token''"
  using replace_Bearer_prefix [of "''good-token''"] by (simp add: is_space_def)

theorem C1_order_exceptions_become_401_witness:
  "fst (createOrder env_store_down order_request w0) = Inr (unauthorized ''store is down'')
   \<and> fst (handler env_store_down order_request w0) = unauthorized ''store is down''"
proof -
  have h1: "authHeader_of order_request = Some ''Bearer good-token''"
    by (simp add: order_request_def eval_defs)
  have h2: "startsWith ''Bearer good-token'' ''Bearer ''"
    by (simp add: startsWith_def)
  note t = C1_order_exceptions_become_401 [OF h1 h2,
      where env = env_store_down and w = w0
        and user = "JObj [(''Username'', JStr ''alice'')]"
        and body = "JObj [(''items'', JArr
           [JObj [(''id'', JStr ''p1''), (''quantity'', JNum (Fin 2)), (''price'', JNum (Fin 5))],
            JObj [(''id'', JStr ''p2''), (''quantity'', JNum (Fin 1))]])]"
        and xs = "[JObj [(''id'', JStr ''p1''), (''quantity'', JNum (Fin 2)), (''price'', JNum (Fin 5))],
            JObj [(''id'', JStr ''p2''), (''quantity'', JNum (Fin 1))]]"
        and lines = "[order_line ''p1'' (Fin 2) (Fin 5) (Fin 10),
            order_line ''p2'' (Fin 1) (Fin 0) (Fin 0)]"
        and ?e3.0 = "Exn ''ServiceUnavailable'' ''store is down''"]
  have c: "fst (createOrder env_store_down order_request w0) = Inr (unauthorized ''store is down'')"
    using t by (simp add: replace_Bearer_good order_request_def eval_defs)
  obtain r w' where r: "createOrder env_store_down order_request w0 = (Inr r, w')"
    and hd: "httpMethod order_request = ''POST'' \<and> resource order_request = ''/orders''
              \<longrightarrow> handler env_store_down order_request w0 = (r, w')"
    using t [THEN conjunct1] by blast
  have "handler env_store_down order_request w0 = (r, w')"
    using hd by (simp add: order_request_def request_def)
  with r c show ?thesis by simp
qed

lemma createOrder_success:
  assumes hdr: "authHeader_of event = Some a" and pre: "startsWith a ''Bearer ''"
    and tok: "replace_Bearer a \<noteq> []"
    and usr: "getUser env (replace_Bearer a) = Inr user" "\<not> is_nullish user"
    and bod: "parse_body env event = Inr body" "own_prop body ''items'' = JArr xs" "xs \<noteq> []"
    and val: "validate_items env xs = Inr True"
    and lin: "map_exn (normalize_item env) xs = Inr lines"
    and ord: "order = orderItem_of (uuid env (uuids_drawn w)) (own_prop user ''Username'')
                lines (now w)"
    and put: "put_rejects env ORDER_TABLE_NAME order = None"
  shows "fst (createOrder env event w) = Inr (created order)"
    and "tables (snd (createOrder env event w)) ORDER_TABLE_NAME = tables w ORDER_TABLE_NAME @ [order]"
    and "calls (snd (createOrder env event w))
           = calls w @ [Call_getUser (replace_Bearer a), Call_put ORDER_TABLE_NAME order]"
  using put unfolding ord
  by (simp_all add: createOrder_bearer [OF hdr pre] try_reaches_put [OF tok usr bod val lin]
      dynamoDb_put_def)

text \<open>
  C3, as the code has it. An order request that passes authentication (the header starts with
  \<^verbatim>\<open>Bearer \<close>, the credential is not empty and the verifier returns a user) and item
  validation, whose items' id, quantity and price convert to a string \<open>sid\<close> and numbers
  \<open>qty\<close> and \<open>prc\<close>, and whose order the store accepts, gets status 201 and the built order as
  body. The order's status is \<^verbatim>\<open>pending\<close>; its items are the input items in the same order,
  each with the id as a string, the quantity as a number, the price as a number (0 when the
  price is falsy or missing) and the total the product (\<open>num_times\<close>, the \<^verbatim>\<open>*\<close> of the
  language) of that price and that quantity. For the items
  \<^verbatim>\<open>[{id:"p1",quantity:2,price:5},{id:"p2",quantity:1}]\<close> the totals are 10 and 0 (which are
  doubles, so rounding leaves them as they are).
\<close>

theorem C3_order_built:
  assumes hdr: "authHeader_of event = Some a" and pre: "startsWith a ''Bearer ''"
    and tok: "replace_Bearer a \<noteq> []"
    and usr: "getUser env (replace_Bearer a) = Inr user" "\<not> is_nullish user"
    and bod: "parse_body env event = Inr body" "own_prop body ''items'' = JArr xs" "xs \<noteq> []"
    and val: "validate_items env xs = Inr True"
    and conv: "\<forall>x\<in>set xs.
        String_js env (own_prop x ''id'') = Inr (sid x)
      \<and> Number_js env (own_prop x ''quantity'') = Inr (qty x)
      \<and> Number_js env (or_js (own_prop x ''price'') (JNum (Fin 0))) = Inr (prc x)"
    and lin: "lines = map (\<lambda>x. order_line (sid x) (qty x) (prc x)
                               (num_times (round_double env) (prc x) (qty x))) xs"
    and ord: "order = orderItem_of (uuid env (uuids_drawn w)) (own_prop user ''Username'')
                lines (now w)"
    and put: "put_rejects env ORDER_TABLE_NAME order = None"
  shows "fst (createOrder env event w) = Inr (created order)
     \<and> own_prop order ''status'' = JStr ''pending''
     \<and> own_prop order ''items'' = JArr lines
     \<and> length lines = length xs
     \<and> (\<forall>i<length xs.
           lines ! i = order_line (sid (xs ! i)) (qty (xs ! i)) (prc (xs ! i))
                         (num_times (round_double env) (prc (xs ! i)) (qty (xs ! i))))
     \<and> (\<forall>x\<in>set xs. \<not> ToBoolean (own_prop x ''price'') \<longrightarrow> prc x = Fin 0)
     \<and> (xs = [JObj [(''id'', JStr ''p1''), (''quantity'', JNum (Fin 2)), (''price'', JNum (Fin 5))],
               JObj [(''id'', JStr ''p2''), (''quantity'', JNum (Fin 1))]]
          \<and> round_double env 10 = Fin 10 \<and> round_double env 0 = Fin 0
          \<longrightarrow> map (\<lambda>line. own_prop line ''totalPrice'') lines
                = [JNum (Fin 10), JNum (Fin 0)])"
proof -
  from val have nn: "\<forall>x\<in>set xs. \<not> is_nullish x" by (simp add: validate_items_True)
  with conv have "map_exn (normalize_item env) xs = Inr lines"
    unfolding lin by (intro map_exn_normalize) blast
  from createOrder_success(1) [OF hdr pre tok usr bod val this ord put]
  have a: "fst (createOrder env event w) = Inr (created order)" .
  have b: "own_prop order ''status'' = JStr ''pending''"
    and c: "own_prop order ''items'' = JArr lines"
    by (simp_all add: ord orderItem_of_def)
  have d: "length lines = length xs"
    and e: "\<forall>i<length xs.
           lines ! i = order_line (sid (xs ! i)) (qty (xs ! i)) (prc (xs ! i))
                         (num_times (round_double env) (prc (xs ! i)) (qty (xs ! i)))"
    by (simp_all add: lin)
  have f: "\<forall>x\<in>set xs. \<not> ToBoolean (own_prop x ''price'') \<longrightarrow> prc x = Fin 0"
  proof (intro ballI impI)
    fix x assume x: "x \<in> set xs" and p: "\<not> ToBoolean (own_prop x ''price'')"
    from conv x have "Number_js env (or_js (own_prop x ''price'') (JNum (Fin 0))) = Inr (prc x)"
      by blast
    with p show "prc x = Fin 0" by (simp add: or_js_def Number_js_def)
  qed
  have g: "xs = [JObj [(''id'', JStr ''p1''), (''quantity'', JNum (Fin 2)), (''price'', JNum (Fin 5))],
               JObj [(''id'', JStr ''p2''), (''quantity'', JNum (Fin 1))]]
          \<and> round_double env 10 = Fin 10 \<and> round_double env 0 = Fin 0
          \<longrightarrow> map (\<lambda>line. own_prop line ''totalPrice'') lines
                = [JNum (Fin 10), JNum (Fin 0)]"
  proof (intro impI, elim conjE)
    assume xs: "xs = [JObj [(''id'', JStr ''p1''), (''quantity'', JNum (Fin 2)), (''price'', JNum (Fin 5))],
               JObj [(''id'', JStr ''p2''), (''quantity'', JNum (Fin 1))]]"
      and r: "round_double env 10 = Fin 10" "round_double env 0 = Fin 0"
    from conv have "qty (xs ! 0) = Fin 2" "prc (xs ! 0) = Fin 5"
      "qty (xs ! 1) = Fin 1" "prc (xs ! 1) = Fin 0"
      unfolding xs by (simp_all add: or_js_def Number_js_def)
    with r show "map (\<lambda>line. own_prop line ''totalPrice'') lines
                = [JNum (Fin 10), JNum (Fin 0)]"
      unfolding lin xs by simp
  qed
  from a b c d e f g show ?thesis by blast
qed

theorem C3_order_built_witness:
  "fst (createOrder env0 order_request w0) =
     Inr \<lparr>statusCode = 201, res_headers = headers,
          res_body = JObj
            [(''id'', JStr ''id-''),
             (''userId'', JStr ''alice''),
             (''items'', JArr
                [JObj [(''id'', JStr ''p1''), (''quantity'', JNum (Fin 2)),
                       (''price'', JNum (Fin 5)), (''totalPrice'', JNum (Fin 10))],
                 JObj [(''id'', JStr ''p2''), (''quantity'', JNum (Fin 1)),
                       (''price'', JNum (Fin 0)), (''totalPrice'', JNum (Fin 0))]]),
             (''createdAt'', JStr ''2024-01-01T00:00:00.000Z''),
             (''status'', JStr ''pending'')]\<rparr>"
proof -
  let ?xs = "[JObj [(''id'', JStr ''p1''), (''quantity'', JNum (Fin 2)), (''price'', JNum (Fin 5))],
              JObj [(''id'', JStr ''p2''), (''quantity'', JNum (Fin 1))]]"
  let ?sid = "\<lambda>x. case own_prop x ''id'' of JStr s \<Rightarrow> s | _ \<Rightarrow> []"
  let ?qty = "\<lambda>x. case own_prop x ''quantity'' of JNum n \<Rightarrow> n | _ \<Rightarrow> NaN"
  let ?prc = "\<lambda>x. case own_prop x ''price'' of JNum n \<Rightarrow> n | _ \<Rightarrow> Fin 0"
  have h1: "authHeader_of order_request = Some ''Bearer good-token''"
    by (simp add: order_request_def eval_defs)
  have h2: "startsWith ''Bearer good-token'' ''Bearer ''"
    by (simp add: startsWith_def)
  have h3: "replace_Bearer ''Bearer good-token'' \<noteq> []"
    by (simp add: replace_Bearer_good)
  have h4: "getUser env0 (replace_Bearer ''Bearer good-token'') = Inr (JObj [(''Username'', JStr ''alice'')])"
    by (simp add: replace_Bearer_good eval_defs)
  have h5: "\<not> is_nullish (JObj [(''Username'', JStr ''alice'')])"
    by simp
  have h6: "parse_body env0 order_request = Inr (JObj [(''items'', JArr ?xs)])"
    by (simp add: order_request_def eval_defs)
  have h7: "own_prop (JObj [(''items'', JArr ?xs)]) ''items'' = JArr ?xs"
    by simp
  have h8: "?xs \<noteq> []"
    by simp
  have h9: "validate_items env0 ?xs = Inr True"
    by (simp add: eval_defs)
  have h10: "\<forall>x\<in>set ?xs.
        String_js env0 (own_prop x ''id'') = Inr (?sid x)
      \<and> Number_js env0 (own_prop x ''quantity'') = Inr (?qty x)
      \<and> Number_js env0 (or_js (own_prop x ''price'') (JNum (Fin 0))) = Inr (?prc x)"
    by (simp add: eval_defs)
  have h11: "put_rejects env0 ORDER_TABLE_NAME
      (orderItem_of (uuid env0 (uuids_drawn w0)) (own_prop (JObj [(''Username'', JStr ''alice'')]) ''Username'')
         (map (\<lambda>x. order_line (?sid x) (?qty x) (?prc x)
                      (num_times (round_double env0) (?prc x) (?qty x))) ?xs) (now w0)) = None"
    by (simp add: eval_defs)
  from C3_order_built [OF h1 h2 h3 h4 h5 h6 h7 h8 h9 h10 refl refl h11]
  show ?thesis
    by (simp add: eval_defs)
qed

text \<open>
  The claim C3 as stated (201 for every request that passes authentication and item
  validation) fails when the store refuses the order: the request of the claim's example,
  with a valid credential and items that pass the validation loop, is answered 401.
\<close>

theorem C3_put_failure_counterexample:
  "authHeader_of order_request = Some ''Bearer good-token''
   \<and> getUser env_store_down ''good-token'' = Inr (JObj [(''Username'', JStr ''alice'')])
   \<and> validate_items env_store_down
        [JObj [(''id'', JStr ''p1''), (''quantity'', JNum (Fin 2)), (''price'', JNum (Fin 5))],
         JObj [(''id'', JStr ''p2''), (''quantity'', JNum (Fin 1))]] = Inr True
   \<and> fst (handler env_store_down order_request w0) = unauthorized ''store is down''"
  by (simp add: order_request_def handler_def createOrder_def createOrder_try_def
      verifyToken_def replace_Bearer_good uuidv4_def dynamoDb_put_def Let_def eval_defs)


section \<open>Creation followed by listing\<close>
















section \<open>Bodies that do not parse\<close>

lemma createProduct_parse_fails:
  assumes "parse_body env event = Inl e"
  shows "createProduct env event w = (Inl e, w)"
  using assms by (simp add: createProduct_def)

lemma createOrder_try_parse_fails_throws:
  assumes "parse_body env event = Inl e"
  shows "\<exists>e' w'. createOrder_try env event token w = (Inl e', w')"
  using assms
  by (auto simp: createOrder_try_def split: prod.splits sum.splits)

lemma createOrder_parse_fails_401:
  assumes "parse_body env event = Inl e"
  shows "\<exists>r w'. createOrder env event w = (Inr r, w') \<and> statusCode r = 401"
proof (cases "authHeader_of event = None
     \<or> (\<exists>a. authHeader_of event = Some a \<and> \<not> startsWith a ''Bearer '')")
  case True
  from createOrder_no_bearer [OF True] show ?thesis by simp
next
  case False
  then obtain a where a: "authHeader_of event = Some a" "startsWith a ''Bearer ''" by auto
  obtain e' w' where "createOrder_try env event (replace_Bearer a) w = (Inl e', w')"
    using createOrder_try_parse_fails_throws [OF assms] by blast
  then show ?thesis by (simp add: createOrder_bearer [OF a])
qed

text \<open>
  C5, as the code has it. A \<^verbatim>\<open>POST\<close> whose body is present and does not parse never gets
  400. For product creation the parser's error leaves the handler and the dispatcher's
  boundary answers 500 with the parser's message, the world unchanged. For order creation
  the answer is always 401: when the header check and the verification pass, it is
  \<^verbatim>\<open>Unauthorized\<close> with the parser's message as details.
\<close>

theorem C5_malformed_body_is_500_or_401:
  assumes body: "ev_body event = Some s" and bad: "JSON_parse env s = Inl e"
    and post: "httpMethod event = ''POST''"
  shows "(resource event = ''/products''
            \<longrightarrow> handler env event w = (internal_error (message e), w))
       \<and> (resource event = ''/orders''
            \<longrightarrow> statusCode (fst (handler env event w)) = 401)
       \<and> (resource event = ''/orders'' \<and> authHeader_of event = Some a
            \<and> startsWith a ''Bearer '' \<and> replace_Bearer a \<noteq> []
            \<and> getUser env (replace_Bearer a) = Inr user \<and> \<not> is_nullish user
            \<longrightarrow> fst (handler env event w) = unauthorized (message e))"
proof -
  from body bad have p: "parse_body env event = Inl e" by (simp add: parse_body_def)
  have c1: "resource event = ''/products''
            \<longrightarrow> handler env event w = (internal_error (message e), w)"
    using post by (simp add: handler_products_post createProduct_parse_fails [OF p])
  have c2: "resource event = ''/orders''
            \<longrightarrow> statusCode (fst (handler env event w)) = 401"
  proof
    assume r: "resource event = ''/orders''"
    from createOrder_parse_fails_401 [OF p, of w]
    show "statusCode (fst (handler env event w)) = 401"
      by (auto simp: handler_orders_post [OF post r])
  qed
  have c3: "resource event = ''/orders'' \<and> authHeader_of event = Some a
            \<and> startsWith a ''Bearer '' \<and> replace_Bearer a \<noteq> []
            \<and> getUser env (replace_Bearer a) = Inr user \<and> \<not> is_nullish user
            \<longrightarrow> fst (handler env event w) = unauthorized (message e)"
  proof (intro impI, elim conjE)
    assume r: "resource event = ''/orders''" and h: "authHeader_of event = Some a"
      "startsWith a ''Bearer ''" and t: "replace_Bearer a \<noteq> []"
      "getUser env (replace_Bearer a) = Inr user" "\<not> is_nullish user"
    show "fst (handler env event w) = unauthorized (message e)"
      by (simp add: handler_orders_post [OF post r] createOrder_bearer [OF h]
          try_parse_fails [OF t p])
  qed
  from c1 c2 c3 show ?thesis by blast
qed

theorem C5_malformed_body_is_500_or_401_witness:
  "handler env0 malformed_product_request w0
     = (internal_error ''Unexpected token in JSON'', w0)
   \<and> fst (handler env0 malformed_order_request w0) = unauthorized ''Unexpected token in JSON''"
proof -
  have b1: \<open>ev_body malformed_product_request = Some ''{"name":''\<close>
    and b2: \<open>ev_body malformed_order_request = Some ''{"items":''\<close>
    and p1: "httpMethod malformed_product_request = ''POST''"
    and p2: "httpMethod malformed_order_request = ''POST''"
    by (simp_all add: malformed_product_request_def malformed_order_request_def request_def)
  have e1: \<open>JSON_parse env0 ''{"name":'' = Inl (Exn ''SyntaxError'' ''Unexpected token in JSON'')\<close>
    and e2: \<open>JSON_parse env0 ''{"items":'' = Inl (Exn ''SyntaxError'' ''Unexpected token in JSON'')\<close>
    by (simp_all add: eval_defs)
  have "handler env0 malformed_product_request w0
     = (internal_error ''Unexpected token in JSON'', w0)"
    using C5_malformed_body_is_500_or_401 [OF b1 e1 p1, where w = w0]
    by (simp add: malformed_product_request_def request_def)
  moreover have "fst (handler env0 malformed_order_request w0)
      = unauthorized ''Unexpected token in JSON''"
    using C5_malformed_body_is_500_or_401 [OF b2 e2 p2, where a = "''Bearer good-token''"
        and user = "JObj [(''Username'', JStr ''alice'')]" and w = w0]
    by (simp add: malformed_order_request_def replace_Bearer_good eval_defs)
  ultimately show ?thesis by simp
qed

text \<open>
  The claim C5 as stated (status 400 for a malformed body) fails on a product request and an
  order request whose bodies are cut short.
\<close>

theorem C5_malformed_body_counterexample:
  "parse_body env0 malformed_product_request
     = Inl (Exn ''SyntaxError'' ''Unexpected token in JSON'')
   \<and> statusCode (fst (handler env0 malformed_product_request w0)) = 500
   \<and> parse_body env0 malformed_order_request
     = Inl (Exn ''SyntaxError'' ''Unexpected token in JSON'')
   \<and> statusCode (fst (handler env0 malformed_order_request w0)) = 401"
  by (simp add: malformed_product_request_def malformed_order_request_def handler_def
      createProduct_def createOrder_def createOrder_try_def verifyToken_def
      replace_Bearer_good Let_def eval_defs)

section \<open>Product creation\<close>

lemma createProduct_falsy_field:
  assumes "parse_body env event = Inr body" and "\<not> is_nullish body"
    and "\<not> ToBoolean (own_prop body ''name'') \<or> \<not> ToBoolean (own_prop body ''price'')
         \<or> \<not> ToBoolean (own_prop body ''description'')"
  shows "createProduct env event w
           = (Inr (bad_request ''Missing name, price, or description''), w)"
  using assms by (auto simp: createProduct_def)

lemma createProduct_truthy_fields:
  assumes "parse_body env event = Inr body" and "\<not> is_nullish body"
    and "ToBoolean (own_prop body ''name'')" and "ToBoolean (own_prop body ''price'')"
    and "ToBoolean (own_prop body ''description'')"
    and "productItem_of env (uuid env (uuids_drawn w)) (own_prop body ''name'')
           (own_prop body ''price'') (own_prop body ''description'')
           (own_prop body ''imageUrl'') (now w) = Inr product"
    and "put_rejects env PRODUCT_TABLE_NAME product = None"
  shows "fst (createProduct env event w) = Inr (created product)"
    and "tables (snd (createProduct env event w)) PRODUCT_TABLE_NAME
           = tables w PRODUCT_TABLE_NAME @ [product]"
  using assms by (simp_all add: createProduct_def uuidv4_def dynamoDb_put_def Let_def)

lemma productItem_fields:
  assumes "productItem_of env new_id name price description imageUrl created_at = Inr product"
  shows "own_prop product ''id'' = JStr new_id"
    and "\<exists>s. String_js env name = Inr s \<and> own_prop product ''name'' = JStr s"
    and "\<exists>n. Number_js env price = Inr n \<and> own_prop product ''price'' = JNum n"
    and "\<exists>s. String_js env description = Inr s \<and> own_prop product ''description'' = JStr s"
    and "\<not> ToBoolean imageUrl \<longrightarrow> own_prop product ''imageUrl'' = JNull"
    and "own_prop product ''createdAt'' = JStr created_at"
  using assms
  by (auto simp: productItem_of_def split: sum.splits if_splits)

lemma createProduct_400_iff:
  assumes "parse_body env event = Inr body" and "\<not> is_nullish body"
  shows "(\<exists>r w'. createProduct env event w = (Inr r, w') \<and> statusCode r = 400)
     \<longleftrightarrow> (\<not> ToBoolean (own_prop body ''name'') \<or> \<not> ToBoolean (own_prop body ''price'')
            \<or> \<not> ToBoolean (own_prop body ''description''))"
  using assms
  by (auto simp: createProduct_def uuidv4_def dynamoDb_put_def Let_def
      split: option.splits sum.splits)

text \<open>
  C6, as the code has it. For a body that parses to a value other than \<^verbatim>\<open>null\<close>, product
  creation answers 400 exactly when \<^verbatim>\<open>name\<close>, \<^verbatim>\<open>price\<close> or \<^verbatim>\<open>description\<close> is falsy (absent,
  \<^verbatim>\<open>null\<close>, \<^verbatim>\<open>false\<close>, \<^verbatim>\<open>0\<close>, the empty string), and then leaves the world as it was; so an
  omitted price gives 400. When the three are truthy, the fields convert (the object literal
  is built, giving \<open>product\<close>) and the store accepts the record, it answers 201 with the
  record it stored: a generated id, the name and the description converted to strings, the
  price converted to a number, and \<^verbatim>\<open>imageUrl\<close> \<^verbatim>\<open>null\<close> when absent.
\<close>

theorem C6_product_fields_must_be_truthy:
  assumes body: "parse_body env event = Inr body" and obj: "\<not> is_nullish body"
  shows "((\<exists>r w'. createProduct env event w = (Inr r, w') \<and> statusCode r = 400)
          \<longleftrightarrow> (\<not> ToBoolean (own_prop body ''name'') \<or> \<not> ToBoolean (own_prop body ''price'')
                \<or> \<not> ToBoolean (own_prop body ''description'')))
       \<and> (\<not> ToBoolean (own_prop body ''name'') \<or> \<not> ToBoolean (own_prop body ''price'')
            \<or> \<not> ToBoolean (own_prop body ''description'')
          \<longrightarrow> createProduct env event w
                = (Inr (bad_request ''Missing name, price, or description''), w))
       \<and> (own_prop body ''price'' = JUndefined
          \<longrightarrow> createProduct env event w
                = (Inr (bad_request ''Missing name, price, or description''), w))
       \<and> (ToBoolean (own_prop body ''name'') \<and> ToBoolean (own_prop body ''price'')
            \<and> ToBoolean (own_prop body ''description'')
            \<and> productItem_of env (uuid env (uuids_drawn w)) (own_prop body ''name'')
                 (own_prop body ''price'') (own_prop body ''description'')
                 (own_prop body ''imageUrl'') (now w) = Inr product
            \<and> put_rejects env PRODUCT_TABLE_NAME product = None
          \<longrightarrow> fst (createProduct env event w) = Inr (created product)
              \<and> tables (snd (createProduct env event w)) PRODUCT_TABLE_NAME
                  = tables w PRODUCT_TABLE_NAME @ [product]
              \<and> own_prop product ''id'' = JStr (uuid env (uuids_drawn w))
              \<and> (\<exists>s. String_js env (own_prop body ''name'') = Inr s
                      \<and> own_prop product ''name'' = JStr s)
              \<and> (\<exists>n. Number_js env (own_prop body ''price'') = Inr n
                      \<and> own_prop product ''price'' = JNum n)
              \<and> (\<exists>s. String_js env (own_prop body ''description'') = Inr s
                      \<and> own_prop product ''description'' = JStr s)
              \<and> (own_prop body ''imageUrl'' = JUndefined
                    \<longrightarrow> own_prop product ''imageUrl'' = JNull))"
proof -
  have c1: "\<not> ToBoolean (own_prop body ''name'') \<or> \<not> ToBoolean (own_prop body ''price'')
            \<or> \<not> ToBoolean (own_prop body ''description'')
          \<longrightarrow> createProduct env event w
                = (Inr (bad_request ''Missing name, price, or description''), w)"
    using createProduct_falsy_field [OF body obj] by blast
  have c2: "own_prop body ''price'' = JUndefined
          \<longrightarrow> createProduct env event w
                = (Inr (bad_request ''Missing name, price, or description''), w)"
    using c1 by simp
  have c3: "ToBoolean (own_prop body ''name'') \<and> ToBoolean (own_prop body ''price'')
            \<and> ToBoolean (own_prop body ''description'')
            \<and> productItem_of env (uuid env (uuids_drawn w)) (own_prop body ''name'')
                 (own_prop body ''price'') (own_prop body ''description'')
                 (own_prop body ''imageUrl'') (now w) = Inr product
            \<and> put_rejects env PRODUCT_TABLE_NAME product = None
          \<longrightarrow> fst (createProduct env event w) = Inr (created product)
              \<and> tables (snd (createProduct env event w)) PRODUCT_TABLE_NAME
                  = tables w PRODUCT_TABLE_NAME @ [product]
              \<and> own_prop product ''id'' = JStr (uuid env (uuids_drawn w))
              \<and> (\<exists>s. String_js env (own_prop body ''name'') = Inr s
                      \<and> own_prop product ''name'' = JStr s)
              \<and> (\<exists>n. Number_js env (own_prop body ''price'') = Inr n
                      \<and> own_prop product ''price'' = JNum n)
              \<and> (\<exists>s. String_js env (own_prop body ''description'') = Inr s
                      \<and> own_prop product ''description'' = JStr s)
              \<and> (own_prop body ''imageUrl'' = JUndefined
                    \<longrightarrow> own_prop product ''imageUrl'' = JNull)"
  proof (intro impI, elim conjE)
    assume t: "ToBoolean (own_prop body ''name'')" "ToBoolean (own_prop body ''price'')"
      "ToBoolean (own_prop body ''description'')"
      and p: "productItem_of env (uuid env (uuids_drawn w)) (own_prop body ''name'')
                 (own_prop body ''price'') (own_prop body ''description'')
                 (own_prop body ''imageUrl'') (now w) = Inr product"
      and s: "put_rejects env PRODUCT_TABLE_NAME product = None"
    note f = productItem_fields [OF p]
    note g = createProduct_truthy_fields [OF body obj t p s]
    from f(5) have "own_prop body ''imageUrl'' = JUndefined
                    \<longrightarrow> own_prop product ''imageUrl'' = JNull" by simp
    with f(1-4) g
    show "fst (createProduct env event w) = Inr (created product)
              \<and> tables (snd (createProduct env event w)) PRODUCT_TABLE_NAME
                  = tables w PRODUCT_TABLE_NAME @ [product]
              \<and> own_prop product ''id'' = JStr (uuid env (uuids_drawn w))
              \<and> (\<exists>s. String_js env (own_prop body ''name'') = Inr s
                      \<and> own_prop product ''name'' = JStr s)
              \<and> (\<exists>n. Number_js env (own_prop body ''price'') = Inr n
                      \<and> own_prop product ''price'' = JNum n)
              \<and> (\<exists>s. String_js env (own_prop body ''description'') = Inr s
                      \<and> own_prop product ''description'' = JStr s)
              \<and> (own_prop body ''imageUrl'' = JUndefined
                    \<longrightarrow> own_prop product ''imageUrl'' = JNull)"
      by blast
  qed
  note c0 = createProduct_400_iff [OF body obj, of w]
  from c0 c1 c2 c3 show ?thesis by blast
qed

theorem C6_product_fields_must_be_truthy_witness:
  "fst (createProduct env0 product_request w0) = Inr (created product_A)
   \<and> createProduct env0 product_without_price_request w0
       = (Inr (bad_request ''Missing name, price, or description''), w0)"
proof -
  let ?b1 = "JObj [(''name'', JStr ''A''), (''price'', JNum (Fin 10)), (''description'', JStr ''d'')]"
  let ?b2 = "JObj [(''name'', JStr ''A''), (''description'', JStr ''d'')]"
  have p1: "parse_body env0 product_request = Inr ?b1"
    by (simp add: product_request_def eval_defs)
  have p2: "parse_body env0 product_without_price_request = Inr ?b2"
    by (simp add: product_without_price_request_def eval_defs)
  have n1: "\<not> is_nullish ?b1" and n2: "\<not> is_nullish ?b2" by simp_all
  have "fst (createProduct env0 product_request w0) = Inr (created product_A)"
    using C6_product_fields_must_be_truthy [OF p1 n1, where w = w0 and product = product_A]
    by (simp add: eval_defs)
  moreover have "createProduct env0 product_without_price_request w0
       = (Inr (bad_request ''Missing name, price, or description''), w0)"
    using C6_product_fields_must_be_truthy [OF p2 n2, where w = w0]
    by simp
  ultimately show ?thesis by simp
qed

text \<open>
  The claim C6 as stated (400 only when a field is omitted) fails on a body whose price is
  present and is \<^verbatim>\<open>0\<close>.
\<close>

theorem C6_price_zero_counterexample:
  "parse_body env0 free_product_request
     = Inr (JObj [(''name'', JStr ''A''), (''price'', JNum (Fin 0)), (''description'', JStr ''d'')])
   \<and> fst (handler env0 free_product_request w0)
     = bad_request ''Missing name, price, or description''"
  by (simp add: free_product_request_def handler_def createProduct_def Let_def eval_defs)

section \<open>Item validation\<close>

lemma validate_items_total:
  assumes "\<forall>x\<in>set xs. \<not> is_nullish x \<and> (\<exists>le. le_zero env (own_prop x ''quantity'') = Inr le)"
  shows "validate_items env xs = Inr (\<forall>x\<in>set xs. item_accepted env x)"
  using assms by (induction xs) (auto simp: get_prop_ok)


lemma try_item_refused:
  assumes "token \<noteq> []" and "getUser env token = Inr user" and "\<not> is_nullish user"
    and "parse_body env event = Inr body" and "own_prop body ''items'' = JArr xs"
    and "xs \<noteq> []" and "validate_items env xs = Inr False"
  shows "createOrder_try env event token w
           = (Inr item_refused, w\<lparr>calls := calls w @ [Call_getUser token]\<rparr>)"
proof -
  from assms(5) have nb: "\<not> is_nullish body" using own_prop_nullish by fastforce
  show ?thesis
    using assms nb
    by (simp add: createOrder_try_def verifyToken_def get_prop_ok)
qed






section \<open>Credential extraction\<close>

lemma try_calls_getUser:
  assumes "token \<noteq> []"
  shows "\<exists>cs. calls (snd (createOrder_try env event token w)) = calls w @ Call_getUser token # cs"
  using assms
  by (auto simp: createOrder_try_def verifyToken_def uuidv4_def dynamoDb_put_def Let_def
      split: sum.splits option.splits bool.splits)

lemma authHeader_of_lookup:
  assumes "ev_headers event = Some h"
  shows "h ''Authorization'' = Some v \<and> v \<noteq> [] \<longrightarrow> authHeader_of event = Some v"
    and "h ''Authorization'' = None \<or> h ''Authorization'' = Some []
           \<longrightarrow> authHeader_of event = h ''authorization''"
  using assms by (auto simp: authHeader_of_def)

text \<open>
  C8, as the code has it. The header is read under the key \<^verbatim>\<open>Authorization\<close> and, when that
  is absent or empty, under \<^verbatim>\<open>authorization\<close>; no other spelling of the key is looked at.
  The value must start with exactly \<^verbatim>\<open>Bearer \<close>: any other value, a lower-case scheme
  included, is answered 401 \<^verbatim>\<open>Authorization token required\<close> with the world unchanged.
  When the value is \<^verbatim>\<open>Bearer \<close> followed by \<open>rest\<close>, the credential handed on is \<open>rest\<close>
  without its leading white space, and when that is not empty the first call made is the
  verifier's, with that credential.
\<close>

theorem C8_bearer_prefix_is_exact:
  "(ev_headers event = Some h \<and> h ''Authorization'' = Some v \<and> v \<noteq> []
      \<longrightarrow> authHeader_of event = Some v)
   \<and> (ev_headers event = Some h \<and> (h ''Authorization'' = None \<or> h ''Authorization'' = Some [])
      \<longrightarrow> authHeader_of event = h ''authorization'')
   \<and> (authHeader_of event = None \<or> authHeader_of event = Some a \<and> \<not> startsWith a ''Bearer ''
      \<longrightarrow> createOrder env event w = (Inr token_required, w))
   \<and> (authHeader_of event = Some (''Bearer '' @ rest)
      \<longrightarrow> createOrder env event w =
            (case createOrder_try env event (dropWhile is_space rest) w of
               (Inl error, w1) \<Rightarrow> (Inr (unauthorized (message error)), w1)
             | (Inr r, w1) \<Rightarrow> (Inr r, w1)))
   \<and> (authHeader_of event = Some (''Bearer '' @ rest) \<and> dropWhile is_space rest \<noteq> []
      \<longrightarrow> (\<exists>cs. calls (snd (createOrder env event w))
                  = calls w @ Call_getUser (dropWhile is_space rest) # cs))"
proof -
  have c1: "ev_headers event = Some h \<and> h ''Authorization'' = Some v \<and> v \<noteq> []
      \<longrightarrow> authHeader_of event = Some v"
    using authHeader_of_lookup(1) by blast
  have c2: "ev_headers event = Some h \<and> (h ''Authorization'' = None \<or> h ''Authorization'' = Some [])
      \<longrightarrow> authHeader_of event = h ''authorization''"
    using authHeader_of_lookup(2) by blast
  have c3: "authHeader_of event = None \<or> authHeader_of event = Some a \<and> \<not> startsWith a ''Bearer ''
      \<longrightarrow> createOrder env event w = (Inr token_required, w)"
    using createOrder_no_bearer [of event env w] by blast
  have s: "startsWith (''Bearer '' @ rest) ''Bearer ''"
    by (simp add: startsWith_def)
  have c4: "authHeader_of event = Some (''Bearer '' @ rest)
      \<longrightarrow> createOrder env event w =
            (case createOrder_try env event (dropWhile is_space rest) w of
               (Inl error, w1) \<Rightarrow> (Inr (unauthorized (message error)), w1)
             | (Inr r, w1) \<Rightarrow> (Inr r, w1))"
    using createOrder_bearer [OF _ s, of event env w]
    by (simp only: replace_Bearer_prefix) blast
  have c5: "authHeader_of event = Some (''Bearer '' @ rest) \<and> dropWhile is_space rest \<noteq> []
      \<longrightarrow> (\<exists>cs. calls (snd (createOrder env event w))
                  = calls w @ Call_getUser (dropWhile is_space rest) # cs)"
  proof (intro impI, elim conjE)
    assume h: "authHeader_of event = Some (''Bearer '' @ rest)"
      and t: "dropWhile is_space rest \<noteq> []"
    from try_calls_getUser [OF t, of env event w]
    obtain cs where cs: "calls (snd (createOrder_try env event (dropWhile is_space rest) w))
        = calls w @ Call_getUser (dropWhile is_space rest) # cs" by blast
    from c4 h have "snd (createOrder env event w)
        = snd (createOrder_try env event (dropWhile is_space rest) w)"
      by (cases "createOrder_try env event (dropWhile is_space rest) w")
         (auto split: sum.splits)
    with cs show "\<exists>cs. calls (snd (createOrder env event w))
                  = calls w @ Call_getUser (dropWhile is_space rest) # cs" by auto
  qed
  from c1 c2 c3 c4 c5 show ?thesis by blast
qed

theorem C8_bearer_prefix_is_exact_witness:
  "createOrder env0 lowercase_bearer_request w0 = (Inr token_required, w0)
   \<and> (\<exists>cs. calls (snd (createOrder env0 spaced_bearer_request w0))
             = Call_getUser ''good-token'' # cs)"
proof -
  have a1: "authHeader_of lowercase_bearer_request = Some ''bearer good-token''"
    and a2: "authHeader_of spaced_bearer_request = Some (''Bearer '' @ ''  good-token'')"
    by (simp_all add: lowercase_bearer_request_def spaced_bearer_request_def eval_defs)
  have n: "\<not> startsWith ''bearer good-token'' ''Bearer ''"
    by (simp add: startsWith_def)
  have d: "dropWhile is_space ''  good-token'' = ''good-token''"
    by (simp add: is_space_def)
  have "createOrder env0 lowercase_bearer_request w0 = (Inr token_required, w0)"
    using C8_bearer_prefix_is_exact
      [where event = lowercase_bearer_request and a = "''bearer good-token''"
         and env = env0 and w = w0] a1 n
    by simp
  moreover have "\<exists>cs. calls (snd (createOrder env0 spaced_bearer_request w0))
             = Call_getUser ''good-token'' # cs"
  proof -
    note i = C8_bearer_prefix_is_exact
      [where event = spaced_bearer_request and rest = "''  good-token''"
         and env = env0 and w = w0,
       THEN conjunct2, THEN conjunct2, THEN conjunct2, THEN conjunct2]
    have pr: "authHeader_of spaced_bearer_request = Some (''Bearer '' @ ''  good-token'')
        \<and> dropWhile is_space ''  good-token'' \<noteq> []"
      using a2 d by simp
    from i [THEN mp, OF pr] obtain cs where
      "calls (snd (createOrder env0 spaced_bearer_request w0))
         = calls w0 @ Call_getUser (dropWhile is_space ''  good-token'') # cs" by blast
    then have "calls (snd (createOrder env0 spaced_bearer_request w0))
         = Call_getUser ''good-token'' # cs"
      by (simp only: d) (simp add: w0_def)
    then show ?thesis by blast
  qed
  ultimately show ?thesis by simp
qed

text \<open>
  The claim C8 as stated fails on a header with the scheme in lower case and on a header
  under the key \<^verbatim>\<open>AUTHORIZATION\<close>: both are answered 401 \<^verbatim>\<open>Authorization token required\<close>
  and the verifier is not called.
\<close>

theorem C8_lowercase_bearer_counterexample:
  "fst (handler env0 lowercase_bearer_request w0) = token_required
   \<and> calls (snd (handler env0 lowercase_bearer_request w0)) = []
   \<and> fst (handler env0 uppercase_key_request w0) = token_required
   \<and> calls (snd (handler env0 uppercase_key_request w0)) = []"
  by (simp add: lowercase_bearer_request_def uppercase_key_request_def handler_def
      createOrder_def Let_def eval_defs)

section \<open>Items that are refused\<close>

text \<open>
  When no element of the items array is \<^verbatim>\<open>null\<close> and no comparison of a quantity throws, an
  element without a truthy id, without a truthy quantity or with a quantity that is
  \<^verbatim>\<open><= 0\<close> makes order creation answer 400
  \<^verbatim>\<open>Each item must have productId and positive quantity\<close>, whatever the other elements are;
  the store's tables are unchanged and the only call made is the verifier's.
\<close>

lemma invalid_item_refused:
  assumes hdr: "authHeader_of event = Some a" and pre: "startsWith a ''Bearer ''"
    and tok: "replace_Bearer a \<noteq> []"
    and usr: "getUser env (replace_Bearer a) = Inr user" "\<not> is_nullish user"
    and bod: "parse_body env event = Inr body" "own_prop body ''items'' = JArr xs" "xs \<noteq> []"
    and nn: "\<forall>x\<in>set xs. \<not> is_nullish x
               \<and> (\<exists>le. le_zero env (own_prop x ''quantity'') = Inr le)"
    and bad: "\<exists>x\<in>set xs. \<not> ToBoolean (own_prop x ''id'')
                \<or> \<not> ToBoolean (own_prop x ''quantity'')
                \<or> le_zero env (own_prop x ''quantity'') = Inr True"
  shows "fst (createOrder env event w) = Inr item_refused
       \<and> tables (snd (createOrder env event w)) = tables w
       \<and> calls (snd (createOrder env event w)) = calls w @ [Call_getUser (replace_Bearer a)]"
proof -
  from bad have "\<not> (\<forall>x\<in>set xs. item_accepted env x)" by fastforce
  with validate_items_total [OF nn]
  have v: "validate_items env xs = Inr False" by simp
  show ?thesis
    by (simp add: createOrder_bearer [OF hdr pre] try_item_refused [OF tok usr bod v])
qed

text \<open>
  C2. The request fails with status 400 whenever an element of the items array lacks a truthy
  id or a positive quantity. The code does not do so for an element that is \<^verbatim>\<open>null\<close>:
  reading \<^verbatim>\<open>item.id\<close> throws, the \<^verbatim>\<open>catch\<close> of \<^verbatim>\<open>createOrder\<close> takes the error, and the answer
  is 401 \<^verbatim>\<open>Unauthorized\<close> (the store is not called). Evaluated on the body
  \<^verbatim>\<open>{"items":[null]}\<close> sent with a valid credential:
\<close>

theorem C2_null_item_is_answered_401:
  "parse_body env0 null_item_request = Inr (JObj [(''items'', JArr [JNull])])
   \<and> fst (handler env0 null_item_request w0)
       = unauthorized (''Cannot read properties of null (reading '' @ [CHR 0x27] @ ''id''
           @ [CHR 0x27] @ '')'')
   \<and> calls (snd (handler env0 null_item_request w0)) = [Call_getUser ''good-token'']"
  by (simp add: null_item_request_def handler_def createOrder_def createOrder_try_def
      verifyToken_def replace_Bearer_good TypeError_def Let_def eval_defs)

section \<open>Conversions that throw\<close>

text \<open>
  An object with an own key \<^verbatim>\<open>toString\<close> cannot be converted to a string or a number. As the
  quantity of an item it makes the comparison of the validation loop throw, and as the id
  of an item that passed the loop it makes \<^verbatim>\<open>String(item.id)\<close> throw: both are answered 401
  \<^verbatim>\<open>Unauthorized\<close> by the \<^verbatim>\<open>catch\<close> of \<^verbatim>\<open>createOrder\<close>, and the store is not called. As the name
  of a product it makes \<^verbatim>\<open>String(name)\<close> throw, which the dispatcher answers 500, and the
  store is not called either.
\<close>

lemma quantity_object_is_answered_401:
  "validate_items env0
     [JObj [(''id'', JStr ''p1''), (''quantity'', JObj [(''toString'', JNum (Fin 1))])]]
     = Inl primitive_error
   \<and> fst (handler env0 quantity_object_order_request w0)
       = unauthorized ''Cannot convert object to primitive value''
   \<and> calls (snd (handler env0 quantity_object_order_request w0)) = [Call_getUser ''good-token'']"
  by (simp add: quantity_object_order_request_def handler_def createOrder_def
      createOrder_try_def verifyToken_def replace_Bearer_good Let_def eval_defs)

lemma id_object_is_answered_401:
  "validate_items env0
     [JObj [(''id'', JObj [(''toString'', JNum (Fin 1))]), (''quantity'', JNum (Fin 2))]]
     = Inr True
   \<and> fst (handler env0 id_object_order_request w0)
       = unauthorized ''Cannot convert object to primitive value''
   \<and> calls (snd (handler env0 id_object_order_request w0)) = [Call_getUser ''good-token'']"
  by (simp add: id_object_order_request_def handler_def createOrder_def
      createOrder_try_def verifyToken_def replace_Bearer_good uuidv4_def Let_def eval_defs)

lemma name_object_is_answered_500:
  "fst (handler env0 name_object_product_request w0)
       = internal_error ''Cannot convert object to primitive value''
   \<and> calls (snd (handler env0 name_object_product_request w0)) = []"
  by (simp add: name_object_product_request_def handler_def createProduct_def uuidv4_def
      Let_def eval_defs)

end
